theory Spec2Isabelle
  imports Complex_Main
begin

section \<open>JavaScript values, errors and asynchronous calls\<close>

text \<open>
  A thrown JavaScript error is a value: the name of its constructor, its message and the
  optional \<open>statusCode\<close> property that the HTTP error handler reads.
  \<open>new Error(msg)\<close> has constructor \<open>Error\<close> and no status code.
\<close>

datatype js_error = JsError (err_class: string) (err_message: string) (err_statusCode: "int option")

definition new_Error :: "string \<Rightarrow> js_error" where
  "new_Error msg = JsError ''Error'' msg None"

text \<open>
  A value handled by the cache service: \<open>null\<close>, a string (the case
  \<open>typeof value === 'string'\<close>), or any other value of the caller's type \<open>T\<close>.
\<close>

datatype 'v js_value = JsNull | JsString string | JsObject 'v

text \<open>
  \<open>JSON.stringify\<close> and \<open>JSON.parse\<close> are built-ins of the runtime; they are
  parameters of the model. \<open>JSON_parse\<close> returns \<open>None\<close> where the built-in throws
  a \<open>SyntaxError\<close>.
\<close>

record 'v JSON =
  JSON_stringify :: "'v js_value \<Rightarrow> string"
  JSON_parse :: "string \<Rightarrow> 'v js_value option"

text \<open>The \<open>||\<close> operator on an optional number and on strings: \<open>undefined\<close>,
  \<open>0\<close> and the empty string are falsy.\<close>

definition or_number :: "int option \<Rightarrow> int \<Rightarrow> int" where
  "or_number a d = (case a of None \<Rightarrow> d | Some n \<Rightarrow> if n = 0 then d else n)"

definition or_string :: "string \<Rightarrow> string \<Rightarrow> string" where
  "or_string a b = (if a = [] then b else a)"

definition truthy_string :: "string option \<Rightarrow> bool" where
  "truthy_string a = (case a of None \<Rightarrow> False | Some s \<Rightarrow> s \<noteq> [])"

section \<open>The cache backend (Redis client)\<close>

text \<open>
  The key/TTL store behind the \<open>ioredis\<close> client. \<open>redisClient\<close> says whether the
  module-level client has been initialised, \<open>keyspace\<close> holds each key with its string
  value and its time to live, and \<open>redis_faults\<close> schedules the outcome of the next
  commands: each command consumes the head, \<open>Some e\<close> makes it reject with \<open>e\<close>, and
  an exhausted schedule means a healthy backend. Expiry by the passing of time is not
  modelled.
\<close>

record redis =
  redisClient :: bool
  keyspace :: "(string \<times> string \<times> int option) list"
  redis_faults :: "js_error option list"

definition getRedisClient :: "redis \<Rightarrow> js_error + unit" where
  "getRedisClient r =
     (if redisClient r then Inr ()
      else Inl (new_Error ''Redis client not initialized. Call initializeRedis() first.''))"

definition redis_command ::
  "(redis \<Rightarrow> (js_error + 'a) \<times> redis) \<Rightarrow> redis \<Rightarrow> (js_error + 'a) \<times> redis" where
  "redis_command run r =
     (case redis_faults r of
        [] \<Rightarrow> run r
      | None # fs \<Rightarrow> run (r\<lparr>redis_faults := fs\<rparr>)
      | Some e # fs \<Rightarrow> (Inl e, r\<lparr>redis_faults := fs\<rparr>))"

text \<open>Key patterns of \<open>KEYS\<close>: literal characters, \<open>?\<close> and \<open>*\<close>. The patterns this
  service builds are a literal prefix followed by \<open>*\<close>; bracket classes and escapes of
  the Redis pattern language are not modelled.\<close>

fun glob_match :: "string \<Rightarrow> string \<Rightarrow> bool" where
  "glob_match [] s = (s = [])"
| "glob_match (p # ps) [] = (p = CHR ''*'' \<and> glob_match ps [])"
| "glob_match (p # ps) (c # cs) =
     (if p = CHR ''*'' then glob_match ps (c # cs) \<or> glob_match (p # ps) cs
      else (p = CHR ''?'' \<or> p = c) \<and> glob_match ps cs)"

text \<open>Decimal integers, as \<open>INCRBY\<close> and \<open>DECRBY\<close> read and write them.\<close>

fun show_nat :: "nat \<Rightarrow> string" where
  "show_nat n =
     (if n < 10 then [char_of (48 + n)]
      else show_nat (n div 10) @ [char_of (48 + n mod 10)])"

definition show_int :: "int \<Rightarrow> string" where
  "show_int i = (if i < 0 then CHR ''-'' # show_nat (nat (- i)) else show_nat (nat i))"

fun digits_value :: "string \<Rightarrow> nat \<Rightarrow> nat option" where
  "digits_value [] acc = Some acc"
| "digits_value (c # cs) acc =
     (let d = (of_char c :: nat)
      in if 48 \<le> d \<and> d \<le> 57 then digits_value cs (acc * 10 + (d - 48)) else None)"

definition parse_int :: "string \<Rightarrow> int option" where
  "parse_int s =
     (case s of
        [] \<Rightarrow> None
      | c # cs \<Rightarrow>
          if c = CHR ''-''
          then (if cs = [] then None else map_option (\<lambda>n. - int n) (digits_value cs 0))
          else map_option int (digits_value s 0))"

definition reply_error :: "string \<Rightarrow> js_error" where
  "reply_error msg = JsError ''ReplyError'' msg None"

definition redis_get :: "string \<Rightarrow> redis \<Rightarrow> (js_error + string option) \<times> redis" where
  "redis_get key =
     redis_command (\<lambda>r. (Inr (map_option fst (map_of (keyspace r) key)), r))"

definition redis_setex :: "string \<Rightarrow> int \<Rightarrow> string \<Rightarrow> redis \<Rightarrow> (js_error + string) \<times> redis" where
  "redis_setex key seconds v =
     redis_command (\<lambda>r.
       if seconds \<le> 0 then (Inl (reply_error ''ERR invalid expire time in setex''), r)
       else (Inr ''OK'',
             r\<lparr>keyspace := (key, v, Some seconds) # filter (\<lambda>e. fst e \<noteq> key) (keyspace r)\<rparr>))"

definition redis_del :: "string list \<Rightarrow> redis \<Rightarrow> (js_error + int) \<times> redis" where
  "redis_del ks =
     redis_command (\<lambda>r.
       (Inr (int (length (filter (\<lambda>e. fst e \<in> set ks) (keyspace r)))),
        r\<lparr>keyspace := filter (\<lambda>e. fst e \<notin> set ks) (keyspace r)\<rparr>))"

definition redis_keys :: "string \<Rightarrow> redis \<Rightarrow> (js_error + string list) \<times> redis" where
  "redis_keys pattern =
     redis_command (\<lambda>r.
       (Inr (map fst (filter (\<lambda>e. glob_match pattern (fst e)) (keyspace r))), r))"

definition redis_exists :: "string \<Rightarrow> redis \<Rightarrow> (js_error + int) \<times> redis" where
  "redis_exists key =
     redis_command (\<lambda>r. (Inr (if map_of (keyspace r) key = None then 0 else 1), r))"

definition redis_ttl :: "string \<Rightarrow> redis \<Rightarrow> (js_error + int) \<times> redis" where
  "redis_ttl key =
     redis_command (\<lambda>r.
       (Inr (case map_of (keyspace r) key of
               None \<Rightarrow> - 2
             | Some (v, None) \<Rightarrow> - 1
             | Some (v, Some seconds) \<Rightarrow> seconds), r))"

definition redis_incrby :: "string \<Rightarrow> int \<Rightarrow> redis \<Rightarrow> (js_error + int) \<times> redis" where
  "redis_incrby key amount =
     redis_command (\<lambda>r.
       let (old, expiry) =
             (case map_of (keyspace r) key of
                None \<Rightarrow> (Some 0, None)
              | Some (v, t) \<Rightarrow> (parse_int v, t))
       in case old of
            None \<Rightarrow> (Inl (reply_error ''ERR value is not an integer or out of range''), r)
          | Some n \<Rightarrow>
              if n + amount < - (2 ^ 63) \<or> 2 ^ 63 \<le> n + amount
              then (Inl (reply_error ''ERR increment or decrement would overflow''), r)
              else (Inr (n + amount),
                    r\<lparr>keyspace :=
                        (key, show_int (n + amount), expiry)
                        # filter (\<lambda>e. fst e \<noteq> key) (keyspace r)\<rparr>))"

definition redis_decrby :: "string \<Rightarrow> int \<Rightarrow> redis \<Rightarrow> (js_error + int) \<times> redis" where
  "redis_decrby key amount = redis_incrby key (- amount)"

definition redis_flushdb :: "redis \<Rightarrow> (js_error + string) \<times> redis" where
  "redis_flushdb = redis_command (\<lambda>r. (Inr ''OK'', r\<lparr>keyspace := []\<rparr>))"

section \<open>CacheService\<close>

definition CachePrefix_USER :: string where "CachePrefix_USER = ''user:''"
definition CachePrefix_TASK :: string where "CachePrefix_TASK = ''task:''"
definition CachePrefix_USER_TASKS :: string where "CachePrefix_USER_TASKS = ''user_tasks:''"
definition CachePrefix_TASK_STATS :: string where "CachePrefix_TASK_STATS = ''task_stats:''"

definition CacheTTL_SHORT :: int where "CacheTTL_SHORT = 60"
definition CacheTTL_MEDIUM :: int where "CacheTTL_MEDIUM = 300"
definition CacheTTL_LONG :: int where "CacheTTL_LONG = 900"

text \<open>
  Every method is an \<open>async\<close> function: it returns either a rejection (\<open>Inl\<close>) or a
  value (\<open>Inr\<close>), with the backend as it leaves it. Each \<open>try\<close>/\<open>catch\<close> of the
  source is the case distinction on \<open>Inl\<close>; logging is not modelled.
\<close>

definition CacheService_get ::
  "'v JSON \<Rightarrow> string \<Rightarrow> redis \<Rightarrow> (js_error + 'v js_value) \<times> redis" where
  "CacheService_get J key r =
     (case getRedisClient r of
        Inl e \<Rightarrow> (Inr JsNull, r)
      | Inr u \<Rightarrow>
          (case redis_get key r of
             (Inl e, r') \<Rightarrow> (Inr JsNull, r')
           | (Inr None, r') \<Rightarrow> (Inr JsNull, r')
           | (Inr (Some v), r') \<Rightarrow>
               if v = [] then (Inr JsNull, r')
               else (case JSON_parse J v of
                       Some parsed \<Rightarrow> (Inr parsed, r')
                     | None \<Rightarrow> (Inr (JsString v), r'))))"

definition CacheService_set ::
  "'v JSON \<Rightarrow> string \<Rightarrow> 'v js_value \<Rightarrow> int \<Rightarrow> redis \<Rightarrow> (js_error + bool) \<times> redis" where
  "CacheService_set J key v ttl r =
     (case getRedisClient r of
        Inl e \<Rightarrow> (Inr False, r)
      | Inr u \<Rightarrow>
          (let serialized = (case v of JsString s \<Rightarrow> s | _ \<Rightarrow> JSON_stringify J v)
           in case redis_setex key ttl serialized r of
                (Inl e, r') \<Rightarrow> (Inr False, r')
              | (Inr ok, r') \<Rightarrow> (Inr True, r')))"

definition CacheService_del :: "string \<Rightarrow> redis \<Rightarrow> (js_error + bool) \<times> redis" where
  "CacheService_del key r =
     (case getRedisClient r of
        Inl e \<Rightarrow> (Inr False, r)
      | Inr u \<Rightarrow>
          (case redis_del [key] r of
             (Inl e, r') \<Rightarrow> (Inr False, r')
           | (Inr n, r') \<Rightarrow> (Inr (n > 0), r')))"

definition CacheService_delPattern :: "string \<Rightarrow> redis \<Rightarrow> (js_error + int) \<times> redis" where
  "CacheService_delPattern pattern r =
     (case getRedisClient r of
        Inl e \<Rightarrow> (Inr 0, r)
      | Inr u \<Rightarrow>
          (case redis_keys pattern r of
             (Inl e, r') \<Rightarrow> (Inr 0, r')
           | (Inr ks, r') \<Rightarrow>
               if length ks = 0 then (Inr 0, r')
               else (case redis_del ks r' of
                       (Inl e, r'') \<Rightarrow> (Inr 0, r'')
                     | (Inr n, r'') \<Rightarrow> (Inr n, r''))))"

definition CacheService_exists :: "string \<Rightarrow> redis \<Rightarrow> (js_error + bool) \<times> redis" where
  "CacheService_exists key r =
     (case getRedisClient r of
        Inl e \<Rightarrow> (Inr False, r)
      | Inr u \<Rightarrow>
          (case redis_exists key r of
             (Inl e, r') \<Rightarrow> (Inr False, r')
           | (Inr n, r') \<Rightarrow> (Inr (n = 1), r')))"

definition CacheService_ttl :: "string \<Rightarrow> redis \<Rightarrow> (js_error + int) \<times> redis" where
  "CacheService_ttl key r =
     (case getRedisClient r of
        Inl e \<Rightarrow> (Inr (- 1), r)
      | Inr u \<Rightarrow>
          (case redis_ttl key r of
             (Inl e, r') \<Rightarrow> (Inr (- 1), r')
           | (Inr n, r') \<Rightarrow> (Inr n, r')))"

definition CacheService_increment :: "string \<Rightarrow> int \<Rightarrow> redis \<Rightarrow> (js_error + int) \<times> redis" where
  "CacheService_increment key amount r =
     (case getRedisClient r of
        Inl e \<Rightarrow> (Inl e, r)
      | Inr u \<Rightarrow>
          (case redis_incrby key amount r of
             (Inl e, r') \<Rightarrow> (Inl e, r')
           | (Inr n, r') \<Rightarrow> (Inr n, r')))"

definition CacheService_decrement :: "string \<Rightarrow> int \<Rightarrow> redis \<Rightarrow> (js_error + int) \<times> redis" where
  "CacheService_decrement key amount r =
     (case getRedisClient r of
        Inl e \<Rightarrow> (Inl e, r)
      | Inr u \<Rightarrow>
          (case redis_decrby key amount r of
             (Inl e, r') \<Rightarrow> (Inl e, r')
           | (Inr n, r') \<Rightarrow> (Inr n, r')))"

definition CacheService_flush :: "string \<Rightarrow> redis \<Rightarrow> (js_error + bool) \<times> redis" where
  "CacheService_flush node_env r =
     (if node_env = ''production'' then (Inr False, r)
      else (case getRedisClient r of
              Inl e \<Rightarrow> (Inr False, r)
            | Inr u \<Rightarrow>
                (case redis_flushdb r of
                   (Inl e, r') \<Rightarrow> (Inr False, r')
                 | (Inr ok, r') \<Rightarrow> (Inr True, r'))))"

text \<open>
  \<open>getOrSet\<close>: the callback is an asynchronous computation on the caller's own state
  \<open>'s\<close> (the durable store, for the services). The \<open>catch\<close> block runs the callback
  again and returns whatever that second run yields.
\<close>

definition getOrSet_catch ::
  "('s \<Rightarrow> (js_error + 'v js_value) \<times> 's) \<Rightarrow> redis \<times> 's \<Rightarrow> (js_error + 'v js_value) \<times> redis \<times> 's" where
  "getOrSet_catch callback rs =
     (case callback (snd rs) of (res, s') \<Rightarrow> (res, fst rs, s'))"

definition CacheService_getOrSet ::
  "'v JSON \<Rightarrow> string \<Rightarrow> ('s \<Rightarrow> (js_error + 'v js_value) \<times> 's) \<Rightarrow> int \<Rightarrow> redis \<times> 's
     \<Rightarrow> (js_error + 'v js_value) \<times> redis \<times> 's" where
  "CacheService_getOrSet J key callback ttl rs =
     (case CacheService_get J key (fst rs) of
        (Inl e, r1) \<Rightarrow> getOrSet_catch callback (r1, snd rs)
      | (Inr cached, r1) \<Rightarrow>
          if cached \<noteq> JsNull then (Inr cached, r1, snd rs)
          else (case callback (snd rs) of
                  (Inl e, s1) \<Rightarrow> getOrSet_catch callback (r1, s1)
                | (Inr result, s1) \<Rightarrow>
                    (case CacheService_set J key result ttl r1 of
                       (Inl e, r2) \<Rightarrow> getOrSet_catch callback (r2, s1)
                     | (Inr stored, r2) \<Rightarrow> (Inr result, r2, s1))))"

definition invalidateUserCache :: "string \<Rightarrow> redis \<Rightarrow> (js_error + unit) \<times> redis" where
  "invalidateUserCache userId r =
     (case CacheService_del (CachePrefix_USER @ userId) r of
        (Inl e, r1) \<Rightarrow> (Inr (), r1)
      | (Inr a, r1) \<Rightarrow>
          (case CacheService_delPattern (CachePrefix_USER_TASKS @ userId @ '':*'') r1 of
             (Inl e, r2) \<Rightarrow> (Inr (), r2)
           | (Inr b, r2) \<Rightarrow>
               (case CacheService_del (CachePrefix_TASK_STATS @ userId) r2 of
                  (Inl e, r3) \<Rightarrow> (Inr (), r3)
                | (Inr c, r3) \<Rightarrow> (Inr (), r3))))"

definition invalidateTaskCache :: "string \<Rightarrow> redis \<Rightarrow> (js_error + unit) \<times> redis" where
  "invalidateTaskCache taskId r =
     (case CacheService_del (CachePrefix_TASK @ taskId) r of
        (Inl e, r1) \<Rightarrow> (Inr (), r1)
      | (Inr a, r1) \<Rightarrow> (Inr (), r1))"

text \<open>Counting the runs of a callback: the counter is part of the callback's state.\<close>

definition counted ::
  "('s \<Rightarrow> (js_error + 'a) \<times> 's) \<Rightarrow> nat \<times> 's \<Rightarrow> (js_error + 'a) \<times> nat \<times> 's" where
  "counted callback ns = (case callback (snd ns) of (res, s') \<Rightarrow> (res, Suc (fst ns), s'))"

text \<open>The outcome scheduled for the next backend command, as a cache method meets it:
  the missing client, or the fault at the head of the schedule.\<close>

definition next_fault :: "redis \<Rightarrow> js_error option" where
  "next_fault r =
     (if \<not> redisClient r
      then Some (new_Error ''Redis client not initialized. Call initializeRedis() first.'')
      else (case redis_faults r of Some e # fs \<Rightarrow> Some e | _ \<Rightarrow> None))"

section \<open>The durable store (TypeORM repository over one table)\<close>

text \<open>
  Every entity class declares the same four managed columns: the generated primary key,
  the creation and update timestamps and the nullable delete-date column
  (\<open>@DeleteDateColumn\<close>). The entity-specific columns are the extension of the record.
  Dates are milliseconds since the epoch. Identifiers are taken to be well-formed UUID
  strings; the rejection of malformed ones by the column type is not modelled, and neither
  are foreign keys or the eager loading of \<open>relations\<close>.
\<close>

record entity =
  entity_id :: string
  createdAt :: int
  updatedAt :: int
  deletedAt :: "int option"

text \<open>A table with the fault schedule of its connection (as for the cache backend).\<close>

record 'r table =
  table_rows :: "'r list"
  db_faults :: "js_error option list"

definition db_query ::
  "('r table \<Rightarrow> (js_error + 'a) \<times> 'r table) \<Rightarrow> 'r table \<Rightarrow> (js_error + 'a) \<times> 'r table" where
  "db_query run t =
     (case db_faults t of
        [] \<Rightarrow> run t
      | None # fs \<Rightarrow> run (t\<lparr>db_faults := fs\<rparr>)
      | Some e # fs \<Rightarrow> (Inl e, t\<lparr>db_faults := fs\<rparr>))"

definition query_failed :: "string \<Rightarrow> js_error" where
  "query_failed msg = JsError ''QueryFailedError'' msg None"

text \<open>
  The operations of the ORM's \<open>Repository\<close> that the data-access layer calls, by the
  SQL they issue. A \<open>SELECT\<close> on an entity with a delete-date column carries the
  condition \<open>deleted_at IS NULL\<close>; the \<open>UPDATE\<close> and \<open>DELETE\<close> statements of
  \<open>softDelete\<close>, \<open>restore\<close> and \<open>delete\<close> select their rows by the criteria alone
  and report the number of rows they matched.
\<close>

definition live :: "'a entity_scheme \<Rightarrow> bool" where
  "live r = (deletedAt r = None)"

definition select_rows :: "('a entity_scheme \<Rightarrow> bool) \<Rightarrow> 'a entity_scheme table \<Rightarrow> 'a entity_scheme list" where
  "select_rows cond t = filter (\<lambda>r. live r \<and> cond r) (table_rows t)"

definition next_db_fault :: "'r table \<Rightarrow> js_error option" where
  "next_db_fault t = (case db_faults t of Some e # fs \<Rightarrow> Some e | _ \<Rightarrow> None)"

definition orm_findOne ::
  "('a entity_scheme \<Rightarrow> bool) \<Rightarrow> 'a entity_scheme table
     \<Rightarrow> (js_error + 'a entity_scheme option) \<times> 'a entity_scheme table" where
  "orm_findOne cond =
     db_query (\<lambda>t. (Inr (case select_rows cond t of [] \<Rightarrow> None | r # rs \<Rightarrow> Some r), t))"

definition orm_find ::
  "('a entity_scheme \<Rightarrow> bool) \<Rightarrow> 'a entity_scheme table
     \<Rightarrow> (js_error + 'a entity_scheme list) \<times> 'a entity_scheme table" where
  "orm_find cond =
     db_query (\<lambda>t. (Inr (select_rows cond t), t))"

definition orm_count ::
  "('a entity_scheme \<Rightarrow> bool) \<Rightarrow> 'a entity_scheme table
     \<Rightarrow> (js_error + int) \<times> 'a entity_scheme table" where
  "orm_count cond =
     db_query (\<lambda>t. (Inr (int (length (select_rows cond t))), t))"

definition apply_order :: "('r \<Rightarrow> int) option \<Rightarrow> 'r list \<Rightarrow> 'r list" where
  "apply_order ord rs = (case ord of None \<Rightarrow> rs | Some k \<Rightarrow> sort_key k rs)"

text \<open>\<open>OFFSET\<close> and \<open>LIMIT\<close> are 64-bit integers of the store: a \<open>skip\<close> or \<open>take\<close>
  outside that range makes the query fail, and so does a negative one.\<close>

definition bigint_max :: int where
  "bigint_max = 2 ^ 63 - 1"

definition bigint_min :: int where
  "bigint_min = - (2 ^ 63)"

definition out_of_bigint :: "int \<Rightarrow> bool" where
  "out_of_bigint n = (n < bigint_min \<or> bigint_max < n)"

definition orm_findAndCount ::
  "('a entity_scheme \<Rightarrow> bool) \<Rightarrow> ('a entity_scheme \<Rightarrow> int) option \<Rightarrow> int \<Rightarrow> int
     \<Rightarrow> 'a entity_scheme table
     \<Rightarrow> (js_error + 'a entity_scheme list \<times> int) \<times> 'a entity_scheme table" where
  "orm_findAndCount cond ord skip tk =
     db_query (\<lambda>t.
       if out_of_bigint skip \<or> out_of_bigint tk
       then (Inl (query_failed ''bigint out of range''), t)
       else if skip < 0 then (Inl (query_failed ''OFFSET must not be negative''), t)
       else if tk < 0 then (Inl (query_failed ''LIMIT must not be negative''), t)
       else (let matching = select_rows cond t
             in (Inr (take (nat tk) (drop (nat skip) (apply_order ord matching)),
                      int (length matching)), t)))"

text \<open>The entity metadata a repository is constructed with: how a partial object is
  merged onto an entity, the table's uniqueness constraint, and the entity's
  \<open>@BeforeInsert\<close>/\<open>@BeforeUpdate\<close> hook.\<close>

record ('r, 'p) metadata =
  merge :: "'r \<Rightarrow> 'p \<Rightarrow> 'r"
  violates :: "'r \<Rightarrow> 'r list \<Rightarrow> bool"
  before_save :: "'r \<Rightarrow> 'r"

text \<open>\<open>save\<close>: the hook runs, then an \<open>UPDATE\<close> of the row with the entity's
  primary key (refreshing \<open>updated_at\<close>), or an \<open>INSERT\<close> when there is none. The
  uniqueness constraint is checked against the other rows of the table.\<close>

definition orm_save ::
  "('a entity_scheme, 'p) metadata \<Rightarrow> 'a entity_scheme \<Rightarrow> int
     \<Rightarrow> 'a entity_scheme table \<Rightarrow> (js_error + 'a entity_scheme) \<times> 'a entity_scheme table" where
  "orm_save M e now =
     db_query (\<lambda>t.
       let saved = (before_save M e)\<lparr>updatedAt := now\<rparr>;
           others = filter (\<lambda>r. entity_id r \<noteq> entity_id saved) (table_rows t)
       in if violates M saved others
          then (Inl (query_failed ''duplicate key value violates unique constraint''), t)
          else if \<exists>r \<in> set (table_rows t). entity_id r = entity_id saved
          then (Inr saved,
                t\<lparr>table_rows := map (\<lambda>r. if entity_id r = entity_id saved then saved else r)
                                    (table_rows t)\<rparr>)
          else (Inr saved, t\<lparr>table_rows := table_rows t @ [saved]\<rparr>))"

text \<open>\<open>softDelete\<close> and \<open>restore\<close> are one \<open>UPDATE\<close> that sets the delete date (to the
  current timestamp, or to \<open>NULL\<close>) and refreshes \<open>updated_at\<close>.\<close>

definition set_delete_date ::
  "string \<Rightarrow> int \<Rightarrow> int option \<Rightarrow> 'a entity_scheme \<Rightarrow> 'a entity_scheme" where
  "set_delete_date ident now d r =
     (if entity_id r = ident then r\<lparr>updatedAt := now, deletedAt := d\<rparr> else r)"

definition rows_with_id :: "string \<Rightarrow> 'a entity_scheme table \<Rightarrow> int" where
  "rows_with_id ident t = int (length (filter (\<lambda>r. entity_id r = ident) (table_rows t)))"

definition orm_softDelete ::
  "string \<Rightarrow> int \<Rightarrow> 'a entity_scheme table \<Rightarrow> (js_error + int option) \<times> 'a entity_scheme table" where
  "orm_softDelete ident now =
     db_query (\<lambda>t.
       (Inr (Some (rows_with_id ident t)),
        t\<lparr>table_rows := map (set_delete_date ident now (Some now)) (table_rows t)\<rparr>))"

definition orm_restore ::
  "string \<Rightarrow> int \<Rightarrow> 'a entity_scheme table \<Rightarrow> (js_error + int option) \<times> 'a entity_scheme table" where
  "orm_restore ident now =
     db_query (\<lambda>t.
       (Inr (Some (rows_with_id ident t)),
        t\<lparr>table_rows := map (set_delete_date ident now None) (table_rows t)\<rparr>))"

definition orm_delete ::
  "string \<Rightarrow> 'a entity_scheme table \<Rightarrow> (js_error + int option) \<times> 'a entity_scheme table" where
  "orm_delete ident =
     db_query (\<lambda>t.
       (Inr (Some (rows_with_id ident t)),
        t\<lparr>table_rows := filter (\<lambda>r. entity_id r \<noteq> ident) (table_rows t)\<rparr>))"

section \<open>BaseRepository\<close>

record 'r PaginationOptions =
  options_page :: "int option"
  options_limit :: "int option"
  options_where :: "('r \<Rightarrow> bool) option"
  options_order :: "('r \<Rightarrow> int) option"
  options_relations :: "string list"

record Pagination =
  page :: int
  limit :: int
  total :: int
  totalPages :: int
  hasNext :: bool
  hasPrevious :: bool

record 'r PaginatedResult =
  data :: "'r list"
  pagination :: Pagination

text \<open>The \<open>catch\<close> block of every repository method: a new \<open>Error\<close> whose message is
  the method's prefix followed by the message of the error caught.\<close>

definition rethrow :: "string \<Rightarrow> (js_error + 'a) \<times> 's \<Rightarrow> (js_error + 'a) \<times> 's" where
  "rethrow prefix res =
     (case res of
        (Inl e, s) \<Rightarrow> (Inl (new_Error (prefix @ err_message e)), s)
      | (Inr a, s) \<Rightarrow> (Inr a, s))"

definition where_all :: "('r \<Rightarrow> bool) option \<Rightarrow> 'r \<Rightarrow> bool" where
  "where_all w r = (case w of None \<Rightarrow> True | Some cond \<Rightarrow> cond r)"

definition BaseRepository_findById ::
  "string \<Rightarrow> 'a entity_scheme table \<Rightarrow> (js_error + 'a entity_scheme option) \<times> 'a entity_scheme table" where
  "BaseRepository_findById ident t =
     rethrow ''Failed to find entity: '' (orm_findOne (\<lambda>r. entity_id r = ident) t)"

definition BaseRepository_findAll ::
  "'a entity_scheme PaginationOptions \<Rightarrow> 'a entity_scheme table
     \<Rightarrow> (js_error + 'a entity_scheme PaginatedResult) \<times> 'a entity_scheme table" where
  "BaseRepository_findAll options t =
     rethrow ''Failed to find entities: ''
       (let pg = or_number (options_page options) 1;
            lim = or_number (options_limit options) 10;
            skip = (pg - 1) * lim
        in case orm_findAndCount (where_all (options_where options)) (options_order options)
                  skip lim t of
             (Inl e, t') \<Rightarrow> (Inl e, t')
           | (Inr (rows, cnt), t') \<Rightarrow>
               (let pages = \<lceil>real_of_int cnt / real_of_int lim\<rceil>
                in (Inr \<lparr>data = rows,
                         pagination = \<lparr>page = pg, limit = lim, total = cnt, totalPages = pages,
                                        hasNext = (pg < pages), hasPrevious = (pg > 1)\<rparr>\<rparr>, t')))"

definition BaseRepository_create ::
  "('a entity_scheme, 'p) metadata \<Rightarrow> 'a entity_scheme \<Rightarrow> string \<Rightarrow> int \<Rightarrow> 'a entity_scheme table
     \<Rightarrow> (js_error + 'a entity_scheme) \<times> 'a entity_scheme table" where
  "BaseRepository_create M values new_id now t =
     rethrow ''Failed to create entity: ''
       (orm_save M
          (values\<lparr>entity_id := new_id, createdAt := now, updatedAt := now, deletedAt := None\<rparr>)
          now t)"

definition BaseRepository_update ::
  "('a entity_scheme, 'p) metadata \<Rightarrow> string \<Rightarrow> 'p \<Rightarrow> int \<Rightarrow> 'a entity_scheme table
     \<Rightarrow> (js_error + 'a entity_scheme) \<times> 'a entity_scheme table" where
  "BaseRepository_update M ident partial now t =
     rethrow ''Failed to update entity: ''
       (case BaseRepository_findById ident t of
          (Inl e, t1) \<Rightarrow> (Inl e, t1)
        | (Inr None, t1) \<Rightarrow> (Inl (new_Error (''Entity with id '' @ ident @ '' not found'')), t1)
        | (Inr (Some found), t1) \<Rightarrow> orm_save M (merge M found partial) now t1)"

definition affected_rows :: "(js_error + int option) \<times> 's \<Rightarrow> (js_error + bool) \<times> 's" where
  "affected_rows res =
     (case res of
        (Inl e, s) \<Rightarrow> (Inl e, s)
      | (Inr affected, s) \<Rightarrow> (Inr (or_number affected 0 > 0), s))"

definition BaseRepository_softDelete ::
  "string \<Rightarrow> int \<Rightarrow> 'a entity_scheme table \<Rightarrow> (js_error + bool) \<times> 'a entity_scheme table" where
  "BaseRepository_softDelete ident now t =
     rethrow ''Failed to soft delete entity: '' (affected_rows (orm_softDelete ident now t))"

definition BaseRepository_hardDelete ::
  "string \<Rightarrow> 'a entity_scheme table \<Rightarrow> (js_error + bool) \<times> 'a entity_scheme table" where
  "BaseRepository_hardDelete ident t =
     rethrow ''Failed to hard delete entity: '' (affected_rows (orm_delete ident t))"

definition BaseRepository_restore ::
  "string \<Rightarrow> int \<Rightarrow> 'a entity_scheme table \<Rightarrow> (js_error + bool) \<times> 'a entity_scheme table" where
  "BaseRepository_restore ident now t =
     rethrow ''Failed to restore entity: '' (affected_rows (orm_restore ident now t))"

definition BaseRepository_count ::
  "('a entity_scheme \<Rightarrow> bool) option \<Rightarrow> 'a entity_scheme table
     \<Rightarrow> (js_error + int) \<times> 'a entity_scheme table" where
  "BaseRepository_count w t =
     rethrow ''Failed to count entities: '' (orm_count (where_all w) t)"

definition BaseRepository_exists ::
  "string \<Rightarrow> 'a entity_scheme table \<Rightarrow> (js_error + bool) \<times> 'a entity_scheme table" where
  "BaseRepository_exists ident t =
     rethrow ''Failed to check entity existence: ''
       (case orm_count (\<lambda>r. entity_id r = ident) t of
          (Inl e, t') \<Rightarrow> (Inl e, t')
        | (Inr n, t') \<Rightarrow> (Inr (n > 0), t'))"

text \<open>The HTTP error handler's status: \<open>err.statusCode || 500\<close>.\<close>

definition errorHandler_statusCode :: "js_error \<Rightarrow> int" where
  "errorHandler_statusCode err = or_number (err_statusCode err) 500"

section \<open>Sequencing asynchronous calls\<close>

text \<open>\<open>await m\<close> followed by the rest of the function body: a rejection of \<open>m\<close>
  leaves the body (to the enclosing \<open>catch\<close>, which in the services only logs and throws
  the same error again).\<close>

definition await ::
  "('s \<Rightarrow> (js_error + 'a) \<times> 's) \<Rightarrow> ('a \<Rightarrow> 's \<Rightarrow> (js_error + 'b) \<times> 's)
     \<Rightarrow> 's \<Rightarrow> (js_error + 'b) \<times> 's" where
  "await m body s = (case m s of (Inl e, s') \<Rightarrow> (Inl e, s') | (Inr a, s') \<Rightarrow> body a s')"

definition resolve :: "'a \<Rightarrow> 's \<Rightarrow> (js_error + 'a) \<times> 's" where
  "resolve a s = (Inr a, s)"

definition throw :: "js_error \<Rightarrow> 's \<Rightarrow> (js_error + 'a) \<times> 's" where
  "throw e s = (Inl e, s)"

text \<open>A service works on the cache backend and on its repository's table.\<close>

definition on_cache ::
  "(redis \<Rightarrow> (js_error + 'a) \<times> redis) \<Rightarrow> redis \<times> 's \<Rightarrow> (js_error + 'a) \<times> redis \<times> 's" where
  "on_cache m rs = (case m (fst rs) of (res, r') \<Rightarrow> (res, r', snd rs))"

definition on_store ::
  "('s \<Rightarrow> (js_error + 'a) \<times> 's) \<Rightarrow> redis \<times> 's \<Rightarrow> (js_error + 'a) \<times> redis \<times> 's" where
  "on_store m rs = (case m (snd rs) of (res, s') \<Rightarrow> (res, fst rs, s'))"

text \<open>\<open>if (id) { await cacheService.invalidateUserCache(id); }\<close> on an optional string.\<close>

definition invalidate_if_set ::
  "string option \<Rightarrow> redis \<times> 's \<Rightarrow> (js_error + unit) \<times> redis \<times> 's" where
  "invalidate_if_set a =
     (case a of
        None \<Rightarrow> resolve ()
      | Some userId \<Rightarrow> if userId = [] then resolve () else on_cache (invalidateUserCache userId))"

section \<open>Task entity and TaskRepository\<close>

datatype TaskStatus = TODO | IN_PROGRESS | DONE | ARCHIVED

datatype TaskPriority = LOW | MEDIUM | HIGH | URGENT

text \<open>The string value of each enum member, as stored in the column and compared by a
  \<open>where\<close> clause.\<close>

fun TaskStatus_value :: "TaskStatus \<Rightarrow> string" where
  "TaskStatus_value TODO = ''TODO''"
| "TaskStatus_value IN_PROGRESS = ''IN_PROGRESS''"
| "TaskStatus_value DONE = ''DONE''"
| "TaskStatus_value ARCHIVED = ''ARCHIVED''"

record task = entity +
  title :: string
  description :: "string option"
  status :: TaskStatus
  priority :: TaskPriority
  dueDate :: "int option"
  assigneeId :: "string option"
  createdById :: string

record CreateTaskDTO =
  create_title :: string
  create_description :: "string option"
  create_status :: "TaskStatus option"
  create_priority :: "TaskPriority option"
  create_dueDate :: "int option"
  create_assigneeId :: "string option"
  create_createdById :: string

text \<open>A partial task: \<open>None\<close> is an absent or \<open>undefined\<close> property, which \<open>merge\<close>
  skips.\<close>

record UpdateTaskDTO =
  update_title :: "string option"
  update_description :: "string option"
  update_status :: "TaskStatus option"
  update_priority :: "TaskPriority option"
  update_dueDate :: "int option"
  update_assigneeId :: "string option"

definition no_changes :: UpdateTaskDTO where
  "no_changes = \<lparr>update_title = None, update_description = None, update_status = None,
                  update_priority = None, update_dueDate = None, update_assigneeId = None\<rparr>"

definition merge_task :: "task \<Rightarrow> UpdateTaskDTO \<Rightarrow> task" where
  "merge_task t d =
     t\<lparr>title := (case update_title d of None \<Rightarrow> title t | Some v \<Rightarrow> v),
       description := (case update_description d of None \<Rightarrow> description t | Some v \<Rightarrow> Some v),
       status := (case update_status d of None \<Rightarrow> status t | Some v \<Rightarrow> v),
       priority := (case update_priority d of None \<Rightarrow> priority t | Some v \<Rightarrow> v),
       dueDate := (case update_dueDate d of None \<Rightarrow> dueDate t | Some v \<Rightarrow> Some v),
       assigneeId := (case update_assigneeId d of None \<Rightarrow> assigneeId t | Some v \<Rightarrow> Some v)\<rparr>"

definition Task_metadata :: "(task, UpdateTaskDTO) metadata" where
  "Task_metadata =
     \<lparr>merge = merge_task, violates = (\<lambda>t others. False), before_save = (\<lambda>t. t)\<rparr>"

text \<open>Conditions of a \<open>where\<close> clause: a column equal to a string value, and
  \<open>LessThan\<close> on the nullable due date (never true of \<open>NULL\<close>).\<close>

definition status_equals :: "string \<Rightarrow> task \<Rightarrow> bool" where
  "status_equals v t = (TaskStatus_value (status t) = v)"

definition dueDate_LessThan :: "int \<Rightarrow> task \<Rightarrow> bool" where
  "dueDate_LessThan now t = (case dueDate t of None \<Rightarrow> False | Some d \<Rightarrow> d < now)"

definition task_relations :: "string list" where
  "task_relations = [''assignee'', ''createdBy'']"

definition TaskRepository_findByAssignee ::
  "string \<Rightarrow> task PaginationOptions \<Rightarrow> task table \<Rightarrow> (js_error + task PaginatedResult) \<times> task table" where
  "TaskRepository_findByAssignee userId options t =
     rethrow ''Failed to find tasks by assignee: ''
       (BaseRepository_findAll
          (options\<lparr>options_where := Some (\<lambda>r. assigneeId r = Some userId),
                   options_relations := task_relations\<rparr>) t)"

definition TaskRepository_findOverdue ::
  "task PaginationOptions \<Rightarrow> int \<Rightarrow> task table \<Rightarrow> (js_error + task PaginatedResult) \<times> task table" where
  "TaskRepository_findOverdue options now t =
     rethrow ''Failed to find overdue tasks: ''
       (BaseRepository_findAll
          (options\<lparr>options_where :=
                     Some (\<lambda>r. dueDate_LessThan now r
                               \<and> status_equals (or_string (TaskStatus_value TODO)
                                                            (TaskStatus_value IN_PROGRESS)) r),
                   options_relations := task_relations\<rparr>) t)"

definition TaskRepository_findUnassigned ::
  "task PaginationOptions \<Rightarrow> task table \<Rightarrow> (js_error + task PaginatedResult) \<times> task table" where
  "TaskRepository_findUnassigned options t =
     rethrow ''Failed to find unassigned tasks: ''
       (BaseRepository_findAll
          (options\<lparr>options_where := Some (\<lambda>r. assigneeId r = None),
                   options_relations := [''createdBy'']\<rparr>) t)"

definition TaskRepository_updateStatus ::
  "string \<Rightarrow> TaskStatus \<Rightarrow> int \<Rightarrow> task table \<Rightarrow> (js_error + task) \<times> task table" where
  "TaskRepository_updateStatus ident st now t =
     rethrow ''Failed to update task status: ''
       (BaseRepository_update Task_metadata ident (no_changes\<lparr>update_status := Some st\<rparr>) now t)"

definition TaskRepository_assignTask ::
  "string \<Rightarrow> string \<Rightarrow> int \<Rightarrow> task table \<Rightarrow> (js_error + task) \<times> task table" where
  "TaskRepository_assignTask taskId userId now t =
     rethrow ''Failed to assign task: ''
       (BaseRepository_update Task_metadata taskId
          (no_changes\<lparr>update_assigneeId := Some userId\<rparr>) now t)"

definition TaskRepository_unassignTask ::
  "string \<Rightarrow> int \<Rightarrow> task table \<Rightarrow> (js_error + task) \<times> task table" where
  "TaskRepository_unassignTask taskId now t =
     rethrow ''Failed to unassign task: ''
       (BaseRepository_update Task_metadata taskId (no_changes\<lparr>update_assigneeId := None\<rparr>) now t)"

definition TaskRepository_findByIdWithRelations ::
  "string \<Rightarrow> task table \<Rightarrow> (js_error + task option) \<times> task table" where
  "TaskRepository_findByIdWithRelations ident t =
     rethrow ''Failed to find task with relations: '' (orm_findOne (\<lambda>r. entity_id r = ident) t)"

record TaskStats =
  stats_total :: int
  stats_todo :: int
  stats_inProgress :: int
  stats_done :: int
  stats_overdue :: int

definition TaskRepository_getUserTaskStats ::
  "string \<Rightarrow> int \<Rightarrow> task table \<Rightarrow> (js_error + TaskStats) \<times> task table" where
  "TaskRepository_getUserTaskStats userId now =
     (\<lambda>t. rethrow ''Failed to get task statistics: ''
       (await (BaseRepository_count (Some (\<lambda>r. assigneeId r = Some userId))) (\<lambda>n_total.
        await (BaseRepository_count
                 (Some (\<lambda>r. assigneeId r = Some userId \<and> status_equals (TaskStatus_value TODO) r)))
          (\<lambda>n_todo.
        await (BaseRepository_count
                 (Some (\<lambda>r. assigneeId r = Some userId
                            \<and> status_equals (TaskStatus_value IN_PROGRESS) r)))
          (\<lambda>n_inProgress.
        await (BaseRepository_count
                 (Some (\<lambda>r. assigneeId r = Some userId \<and> status_equals (TaskStatus_value DONE) r)))
          (\<lambda>n_done.
        await (orm_count (\<lambda>r. assigneeId r = Some userId \<and> dueDate_LessThan now r
                              \<and> status_equals (or_string (TaskStatus_value TODO)
                                                           (TaskStatus_value IN_PROGRESS)) r))
          (\<lambda>overdueTasks.
        resolve \<lparr>stats_total = n_total, stats_todo = n_todo, stats_inProgress = n_inProgress,
                 stats_done = n_done, stats_overdue = overdueTasks\<rparr>))))) t))"

section \<open>TaskService\<close>

text \<open>The service's own \<open>catch\<close> blocks log and throw the same error again; they are the
  identity on outcomes. \<open>new_id\<close> is the identifier the store generates for a new row and
  \<open>now\<close> the current time.\<close>

definition TaskService_createTask ::
  "task JSON \<Rightarrow> CreateTaskDTO \<Rightarrow> string \<Rightarrow> int \<Rightarrow> redis \<times> task table
     \<Rightarrow> (js_error + task) \<times> redis \<times> task table" where
  "TaskService_createTask J dto new_id now =
     await (on_store (BaseRepository_create Task_metadata
               \<lparr>entity_id = [], createdAt = 0, updatedAt = 0, deletedAt = None,
                title = create_title dto,
                description = create_description dto,
                status = (case create_status dto of None \<Rightarrow> TODO | Some st \<Rightarrow> st),
                priority = (case create_priority dto of None \<Rightarrow> MEDIUM | Some pr \<Rightarrow> pr),
                dueDate = create_dueDate dto,
                assigneeId = create_assigneeId dto,
                createdById = create_createdById dto\<rparr> new_id now)) (\<lambda>created.
     await (on_cache (CacheService_set J (CachePrefix_TASK @ entity_id created) (JsObject created)
                        CacheTTL_MEDIUM)) (\<lambda>stored.
     await (invalidate_if_set (create_assigneeId dto)) (\<lambda>u.
     resolve created)))"

text \<open>The callback that \<open>findById\<close> passes to \<open>getOrSet\<close>: the read through to the
  repository, which throws when there is no such task.\<close>

definition TaskService_findById_callback ::
  "string \<Rightarrow> task table \<Rightarrow> (js_error + task js_value) \<times> task table" where
  "TaskService_findById_callback ident =
     await (TaskRepository_findByIdWithRelations ident) (\<lambda>found.
       case found of
         None \<Rightarrow> throw (new_Error (''Task with id '' @ ident @ '' not found''))
       | Some t \<Rightarrow> resolve (JsObject t))"

definition TaskService_findById ::
  "task JSON \<Rightarrow> string \<Rightarrow> redis \<times> task table \<Rightarrow> (js_error + task js_value) \<times> redis \<times> task table" where
  "TaskService_findById J ident =
     CacheService_getOrSet J (CachePrefix_TASK @ ident) (TaskService_findById_callback ident)
       CacheTTL_MEDIUM"

definition TaskService_findByAssignee ::
  "task PaginatedResult JSON \<Rightarrow> (task PaginationOptions \<Rightarrow> string) \<Rightarrow> string
     \<Rightarrow> task PaginationOptions \<Rightarrow> redis \<times> task table
     \<Rightarrow> (js_error + task PaginatedResult js_value) \<times> redis \<times> task table" where
  "TaskService_findByAssignee J stringify_options userId options =
     CacheService_getOrSet J (CachePrefix_USER_TASKS @ userId @ '':'' @ stringify_options options)
       (await (TaskRepository_findByAssignee userId options) (\<lambda>res. resolve (JsObject res)))
       CacheTTL_SHORT"

definition TaskService_getUserTaskStats ::
  "TaskStats JSON \<Rightarrow> string \<Rightarrow> int \<Rightarrow> redis \<times> task table
     \<Rightarrow> (js_error + TaskStats js_value) \<times> redis \<times> task table" where
  "TaskService_getUserTaskStats J userId now =
     CacheService_getOrSet J (CachePrefix_TASK_STATS @ userId)
       (await (TaskRepository_getUserTaskStats userId now) (\<lambda>st. resolve (JsObject st)))
       CacheTTL_SHORT"

definition TaskService_updateTask ::
  "string \<Rightarrow> UpdateTaskDTO \<Rightarrow> int \<Rightarrow> redis \<times> task table \<Rightarrow> (js_error + task) \<times> redis \<times> task table" where
  "TaskService_updateTask ident dto now =
     await (on_store (BaseRepository_findById ident)) (\<lambda>found.
       case found of
         None \<Rightarrow> throw (new_Error (''Task with id '' @ ident @ '' not found''))
       | Some before \<Rightarrow>
           await (on_store (BaseRepository_update Task_metadata ident dto now)) (\<lambda>updated.
           await (on_cache (invalidateTaskCache ident)) (\<lambda>u.
           await (invalidate_if_set (assigneeId before)) (\<lambda>u.
           await (if update_assigneeId dto \<noteq> assigneeId before
                  then invalidate_if_set (update_assigneeId dto) else resolve ()) (\<lambda>u.
           resolve updated)))))"

definition TaskService_updateStatus ::
  "string \<Rightarrow> TaskStatus \<Rightarrow> int \<Rightarrow> redis \<times> task table \<Rightarrow> (js_error + task) \<times> redis \<times> task table" where
  "TaskService_updateStatus ident st now =
     await (on_store (TaskRepository_updateStatus ident st now)) (\<lambda>updated.
     await (on_cache (invalidateTaskCache ident)) (\<lambda>u.
     await (invalidate_if_set (assigneeId updated)) (\<lambda>u.
     resolve updated)))"

definition TaskService_assignTask ::
  "string \<Rightarrow> string \<Rightarrow> int \<Rightarrow> redis \<times> task table \<Rightarrow> (js_error + task) \<times> redis \<times> task table" where
  "TaskService_assignTask taskId userId now =
     await (on_store (TaskRepository_assignTask taskId userId now)) (\<lambda>updated.
     await (on_cache (invalidateTaskCache taskId)) (\<lambda>u.
     await (on_cache (invalidateUserCache userId)) (\<lambda>u.
     resolve updated)))"

definition TaskService_unassignTask ::
  "string \<Rightarrow> int \<Rightarrow> redis \<times> task table \<Rightarrow> (js_error + task) \<times> redis \<times> task table" where
  "TaskService_unassignTask taskId now =
     await (on_store (BaseRepository_findById taskId)) (\<lambda>found.
       case found of
         None \<Rightarrow> throw (new_Error (''Task with id '' @ taskId @ '' not found''))
       | Some before \<Rightarrow>
           await (on_store (TaskRepository_unassignTask taskId now)) (\<lambda>updated.
           await (on_cache (invalidateTaskCache taskId)) (\<lambda>u.
           await (invalidate_if_set (assigneeId before)) (\<lambda>u.
           resolve updated))))"

definition TaskService_deleteTask ::
  "string \<Rightarrow> int \<Rightarrow> redis \<times> task table \<Rightarrow> (js_error + unit) \<times> redis \<times> task table" where
  "TaskService_deleteTask ident now =
     await (on_store (BaseRepository_findById ident)) (\<lambda>found.
       case found of
         None \<Rightarrow> throw (new_Error (''Task with id '' @ ident @ '' not found''))
       | Some before \<Rightarrow>
           await (on_store (BaseRepository_softDelete ident now)) (\<lambda>deleted.
           await (on_cache (invalidateTaskCache ident)) (\<lambda>u.
           await (invalidate_if_set (assigneeId before)) (\<lambda>u.
           resolve ()))))"

section \<open>User entity, UserRepository and UserService\<close>

datatype UserRole = USER | ADMIN | SUPER_ADMIN

datatype UserStatus = ACTIVE | INACTIVE | SUSPENDED

record user = entity +
  email :: string
  passwordHash :: string
  firstName :: string
  lastName :: string
  role :: UserRole
  user_status :: UserStatus

record CreateUserDTO =
  new_email :: string
  new_password :: string
  new_firstName :: string
  new_lastName :: string
  new_role :: "UserRole option"

record UpdateUserDTO =
  change_email :: "string option"
  change_firstName :: "string option"
  change_lastName :: "string option"
  change_role :: "UserRole option"
  change_status :: "UserStatus option"

definition unchanged :: UpdateUserDTO where
  "unchanged = \<lparr>change_email = None, change_firstName = None, change_lastName = None,
                 change_role = None, change_status = None\<rparr>"

definition merge_user :: "user \<Rightarrow> UpdateUserDTO \<Rightarrow> user" where
  "merge_user u d =
     u\<lparr>email := (case change_email d of None \<Rightarrow> email u | Some v \<Rightarrow> v),
       firstName := (case change_firstName d of None \<Rightarrow> firstName u | Some v \<Rightarrow> v),
       lastName := (case change_lastName d of None \<Rightarrow> lastName u | Some v \<Rightarrow> v),
       role := (case change_role d of None \<Rightarrow> role u | Some v \<Rightarrow> v),
       user_status := (case change_status d of None \<Rightarrow> user_status u | Some v \<Rightarrow> v)\<rparr>"

text \<open>\<open>lower_trim\<close> stands for \<open>toLowerCase().trim()\<close> of the runtime. The hook
  \<open>normalizeEmail\<close> applies it to a non-empty email; the \<open>email\<close> column is unique over
  all rows of the table.\<close>

definition normalizeEmail :: "(string \<Rightarrow> string) \<Rightarrow> user \<Rightarrow> user" where
  "normalizeEmail lower_trim u = (if email u \<noteq> [] then u\<lparr>email := lower_trim (email u)\<rparr> else u)"

definition User_metadata :: "(string \<Rightarrow> string) \<Rightarrow> (user, UpdateUserDTO) metadata" where
  "User_metadata lower_trim =
     \<lparr>merge = merge_user,
      violates = (\<lambda>u others. \<exists>other \<in> set others. email other = email u),
      before_save = normalizeEmail lower_trim\<rparr>"

definition UserRepository_findByEmail ::
  "(string \<Rightarrow> string) \<Rightarrow> string \<Rightarrow> user table \<Rightarrow> (js_error + user option) \<times> user table" where
  "UserRepository_findByEmail lower_trim addr t =
     rethrow ''Failed to find user by email: '' (orm_findOne (\<lambda>u. email u = lower_trim addr) t)"

definition UserRepository_updatePassword ::
  "(string \<Rightarrow> string) \<Rightarrow> string \<Rightarrow> string \<Rightarrow> int \<Rightarrow> user table \<Rightarrow> (js_error + user) \<times> user table" where
  "UserRepository_updatePassword lower_trim ident hashed now t =
     rethrow ''Failed to update password: ''
       (await (BaseRepository_findById ident) (\<lambda>found.
          case found of
            None \<Rightarrow> throw (new_Error (''User with id '' @ ident @ '' not found''))
          | Some u \<Rightarrow> orm_save (User_metadata lower_trim) (u\<lparr>passwordHash := hashed\<rparr>) now) t)"

definition UserRepository_deactivate ::
  "(string \<Rightarrow> string) \<Rightarrow> string \<Rightarrow> int \<Rightarrow> user table \<Rightarrow> (js_error + user) \<times> user table" where
  "UserRepository_deactivate lower_trim ident now t =
     rethrow ''Failed to deactivate user: ''
       (BaseRepository_update (User_metadata lower_trim) ident
          (unchanged\<lparr>change_status := Some INACTIVE\<rparr>) now t)"

definition UserRepository_isEmailTaken ::
  "(string \<Rightarrow> string) \<Rightarrow> string \<Rightarrow> string option \<Rightarrow> user table \<Rightarrow> (js_error + bool) \<times> user table" where
  "UserRepository_isEmailTaken lower_trim addr excludeUserId t =
     rethrow ''Failed to check email availability: ''
       (if truthy_string excludeUserId
        then await (orm_find (\<lambda>u. email u = lower_trim addr))
               (\<lambda>users. resolve (\<exists>u \<in> set users. Some (entity_id u) \<noteq> excludeUserId)) t
        else await (orm_count (\<lambda>u. email u = lower_trim addr)) (\<lambda>n. resolve (n > 0)) t)"

text \<open>\<open>hash\<close> and \<open>compare\<close> stand for the password-hashing library.\<close>

definition UserService_createUser ::
  "user JSON \<Rightarrow> (string \<Rightarrow> string) \<Rightarrow> (string \<Rightarrow> string) \<Rightarrow> CreateUserDTO \<Rightarrow> string \<Rightarrow> int
     \<Rightarrow> redis \<times> user table \<Rightarrow> (js_error + user) \<times> redis \<times> user table" where
  "UserService_createUser J lower_trim hash dto new_id now =
     await (on_store (UserRepository_findByEmail lower_trim (new_email dto))) (\<lambda>existingUser.
       case existingUser of
         Some u \<Rightarrow> throw (new_Error ''Email already registered'')
       | None \<Rightarrow>
           await (on_store (BaseRepository_create (User_metadata lower_trim)
                    \<lparr>entity_id = [], createdAt = 0, updatedAt = 0, deletedAt = None,
                     email = new_email dto,
                     passwordHash = hash (new_password dto),
                     firstName = new_firstName dto,
                     lastName = new_lastName dto,
                     role = (case new_role dto of None \<Rightarrow> USER | Some ro \<Rightarrow> ro),
                     user_status = ACTIVE\<rparr> new_id now)) (\<lambda>created.
           await (on_cache (CacheService_set J (CachePrefix_USER @ entity_id created)
                              (JsObject created) CacheTTL_LONG)) (\<lambda>stored.
           resolve created)))"

definition UserService_findById ::
  "user JSON \<Rightarrow> string \<Rightarrow> redis \<times> user table \<Rightarrow> (js_error + user js_value) \<times> redis \<times> user table" where
  "UserService_findById J ident =
     CacheService_getOrSet J (CachePrefix_USER @ ident)
       (await (BaseRepository_findById ident) (\<lambda>found.
          case found of
            None \<Rightarrow> throw (new_Error (''User with id '' @ ident @ '' not found''))
          | Some u \<Rightarrow> resolve (JsObject u)))
       CacheTTL_LONG"

text \<open>What \<open>!user\<close> and \<open>user.email\<close> give on the value that \<open>findById\<close> returned.\<close>

definition falsy :: "'v js_value \<Rightarrow> bool" where
  "falsy v = (case v of JsNull \<Rightarrow> True | JsString s \<Rightarrow> s = [] | JsObject x \<Rightarrow> False)"

definition email_property :: "user js_value \<Rightarrow> string option" where
  "email_property v = (case v of JsObject u \<Rightarrow> Some (email u) | _ \<Rightarrow> None)"

definition UserService_updateUser ::
  "user JSON \<Rightarrow> (string \<Rightarrow> string) \<Rightarrow> string \<Rightarrow> UpdateUserDTO \<Rightarrow> int
     \<Rightarrow> redis \<times> user table \<Rightarrow> (js_error + user) \<times> redis \<times> user table" where
  "UserService_updateUser J lower_trim ident dto now =
     await (UserService_findById J ident) (\<lambda>found.
       if falsy found then throw (new_Error (''User with id '' @ ident @ '' not found''))
       else
         await (if truthy_string (change_email dto) \<and> change_email dto \<noteq> email_property found
                then await (on_store (UserRepository_isEmailTaken lower_trim
                                        (case change_email dto of Some a \<Rightarrow> a | None \<Rightarrow> [])
                                        (Some ident)))
                       (\<lambda>isTaken. if isTaken then throw (new_Error ''Email already in use'')
                                   else resolve ())
                else resolve ()) (\<lambda>u.
         await (on_store (BaseRepository_update (User_metadata lower_trim) ident dto now)) (\<lambda>updated.
         await (on_cache (invalidateUserCache ident)) (\<lambda>u.
         resolve updated))))"

definition UserService_changePassword ::
  "(string \<Rightarrow> string) \<Rightarrow> (string \<Rightarrow> string) \<Rightarrow> (string \<Rightarrow> string \<Rightarrow> bool) \<Rightarrow> string \<Rightarrow> string \<Rightarrow> string
     \<Rightarrow> int \<Rightarrow> redis \<times> user table \<Rightarrow> (js_error + unit) \<times> redis \<times> user table" where
  "UserService_changePassword lower_trim hash compare ident oldPassword newPassword now =
     await (on_store (BaseRepository_findById ident)) (\<lambda>found.
       case found of
         None \<Rightarrow> throw (new_Error (''User with id '' @ ident @ '' not found''))
       | Some u \<Rightarrow>
           if \<not> compare oldPassword (passwordHash u)
           then throw (new_Error ''Current password is incorrect'')
           else
             await (on_store (UserRepository_updatePassword lower_trim ident (hash newPassword) now))
               (\<lambda>saved.
             await (on_cache (invalidateUserCache ident)) (\<lambda>u.
             resolve ())))"

definition UserService_deactivateUser ::
  "(string \<Rightarrow> string) \<Rightarrow> string \<Rightarrow> int \<Rightarrow> redis \<times> user table
     \<Rightarrow> (js_error + unit) \<times> redis \<times> user table" where
  "UserService_deactivateUser lower_trim ident now =
     await (on_store (UserRepository_deactivate lower_trim ident now)) (\<lambda>saved.
     await (on_cache (invalidateUserCache ident)) (\<lambda>u.
     resolve ()))"

definition UserService_deleteUser ::
  "string \<Rightarrow> int \<Rightarrow> redis \<times> user table \<Rightarrow> (js_error + unit) \<times> redis \<times> user table" where
  "UserService_deleteUser ident now =
     await (on_store (BaseRepository_softDelete ident now)) (\<lambda>deleted.
     await (on_cache (invalidateUserCache ident)) (\<lambda>u.
     resolve ()))"

text \<open>A call that left the cache \<open>after\<close> only deleted entries of \<open>before\<close>: what it
  left is \<open>before\<close> restricted to the keys still present, each with the value and time
  to live it had.\<close>

definition only_deleted :: "redis \<Rightarrow> redis \<Rightarrow> bool" where
  "only_deleted before after =
     (keyspace after = filter (\<lambda>entry. fst entry \<in> set (map fst (keyspace after))) (keyspace before))"

definition without_key :: "string \<Rightarrow> redis \<Rightarrow> redis" where
  "without_key key r = r\<lparr>keyspace := filter (\<lambda>entry. fst entry \<noteq> key) (keyspace r)\<rparr>"

text \<open>A service call that, from every state, only deletes cache entries.\<close>

definition deletes_only :: "(redis \<times> 's \<Rightarrow> (js_error + 'a) \<times> redis \<times> 's) \<Rightarrow> bool" where
  "deletes_only call = (\<forall>r s. only_deleted r (fst (snd (call (r, s)))))"

section \<open>Example states\<close>

text \<open>A codec whose parser rejects every string (so a cached string is returned raw), a
  codec that writes \<open>null\<close> as the string \<open>null\<close> and reads it back, as JSON does, a
  backend error, a cache holding one task entry and the list and statistics entries of
  two users, and small task tables.\<close>

definition opaque_JSON :: "'v JSON" where
  "opaque_JSON = \<lparr>JSON_stringify = (\<lambda>v. ''{}''), JSON_parse = (\<lambda>s. None)\<rparr>"

definition null_JSON :: "'v JSON" where
  "null_JSON =
     \<lparr>JSON_stringify = (\<lambda>v. case v of JsNull \<Rightarrow> ''null'' | _ \<Rightarrow> ''{}''),
      JSON_parse = (\<lambda>s. if s = ''null'' then Some JsNull else None)\<rparr>"

definition connection_closed :: js_error where
  "connection_closed = new_Error ''Connection is closed.''"

definition example_cache :: "js_error option list \<Rightarrow> redis" where
  "example_cache faults =
     \<lparr>redisClient = True,
      keyspace = [(''task:t1'', ''{}'', Some 300), (''user_tasks:A:{}'', ''[]'', Some 60),
                  (''task_stats:A'', ''{}'', Some 60), (''user_tasks:B:{}'', ''[]'', Some 60),
                  (''task_stats:B'', ''{}'', Some 60)],
      redis_faults = faults\<rparr>"

definition example_task :: "string \<Rightarrow> TaskStatus \<Rightarrow> int option \<Rightarrow> string option \<Rightarrow> int option \<Rightarrow> task" where
  "example_task ident st due owner deleted =
     \<lparr>entity_id = ident, createdAt = 1, updatedAt = 1, deletedAt = deleted,
      title = ''Report'', description = None, status = st, priority = MEDIUM,
      dueDate = due, assigneeId = owner, createdById = ''A''\<rparr>"

definition example_tasks :: "task table" where
  "example_tasks =
     \<lparr>table_rows = [example_task ''t1'' TODO (Some 5) (Some ''A'') None,
                    example_task ''t2'' IN_PROGRESS (Some 5) (Some ''A'') None,
                    example_task ''t3'' DONE None None (Some 3)],
      db_faults = []\<rparr>"


definition page_options :: "int \<Rightarrow> int \<Rightarrow> task PaginationOptions" where
  "page_options p l =
     \<lparr>options_page = Some p, options_limit = Some l, options_where = None,
      options_order = None, options_relations = []\<rparr>"

definition example_producer :: "nat \<Rightarrow> (js_error + nat js_value) \<times> nat" where
  "example_producer version = (Inr (JsObject version), version)"

section \<open>Fail-soft policy of the cache service\<close>

lemma get_never_rejects: "\<exists>v. fst (CacheService_get J key r) = Inr v"
  by (auto simp: CacheService_get_def split: sum.splits prod.splits option.splits)

lemma set_never_rejects: "\<exists>b. fst (CacheService_set J key v ttl r) = Inr b"
  by (auto simp: CacheService_set_def Let_def split: sum.splits prod.splits option.splits)

lemma del_never_rejects: "\<exists>b. fst (CacheService_del key r) = Inr b"
  by (auto simp: CacheService_del_def split: sum.splits prod.splits)

lemma delPattern_never_rejects: "\<exists>n. fst (CacheService_delPattern pattern r) = Inr n"
  by (auto simp: CacheService_delPattern_def split: sum.splits prod.splits)

lemma exists_never_rejects: "\<exists>b. fst (CacheService_exists key r) = Inr b"
  by (auto simp: CacheService_exists_def split: sum.splits prod.splits)

lemma ttl_never_rejects: "\<exists>n. fst (CacheService_ttl key r) = Inr n"
  by (auto simp: CacheService_ttl_def split: sum.splits prod.splits)

lemma get_on_fault: "next_fault r = Some e \<Longrightarrow> fst (CacheService_get J key r) = Inr JsNull"
  by (auto simp: next_fault_def CacheService_get_def getRedisClient_def redis_get_def
      redis_command_def split: if_splits list.splits option.splits)

lemma set_on_fault: "next_fault r = Some e \<Longrightarrow> fst (CacheService_set J key v ttl r) = Inr False"
  by (auto simp: next_fault_def CacheService_set_def getRedisClient_def redis_setex_def
      redis_command_def Let_def split: if_splits list.splits option.splits)

lemma del_on_fault: "next_fault r = Some e \<Longrightarrow> fst (CacheService_del key r) = Inr False"
  by (auto simp: next_fault_def CacheService_del_def getRedisClient_def redis_del_def
      redis_command_def split: if_splits list.splits option.splits)

lemma delPattern_on_fault:
  "next_fault r = Some e \<Longrightarrow> fst (CacheService_delPattern pattern r) = Inr 0"
  by (auto simp: next_fault_def CacheService_delPattern_def getRedisClient_def redis_keys_def
      redis_command_def split: if_splits list.splits option.splits)

lemma delPattern_on_second_fault:
  "redisClient r \<Longrightarrow> redis_faults r = None # Some e # fs \<Longrightarrow>
   fst (CacheService_delPattern pattern r) = Inr 0"
  by (auto simp: CacheService_delPattern_def getRedisClient_def redis_keys_def redis_del_def
      redis_command_def split: if_splits list.splits option.splits)

lemma exists_on_fault: "next_fault r = Some e \<Longrightarrow> fst (CacheService_exists key r) = Inr False"
  by (auto simp: next_fault_def CacheService_exists_def getRedisClient_def redis_exists_def
      redis_command_def split: if_splits list.splits option.splits)

lemma ttl_on_fault: "next_fault r = Some e \<Longrightarrow> fst (CacheService_ttl key r) = Inr (- 1)"
  by (auto simp: next_fault_def CacheService_ttl_def getRedisClient_def redis_ttl_def
      redis_command_def split: if_splits list.splits option.splits)

lemma increment_on_fault:
  "next_fault r = Some e \<Longrightarrow> fst (CacheService_increment key amount r) = Inl e"
  by (auto simp: next_fault_def CacheService_increment_def getRedisClient_def redis_incrby_def
      redis_command_def split: if_splits list.splits option.splits)

lemma decrement_on_fault:
  "next_fault r = Some e \<Longrightarrow> fst (CacheService_decrement key amount r) = Inl e"
  by (auto simp: next_fault_def CacheService_decrement_def getRedisClient_def redis_decrby_def
      redis_incrby_def redis_command_def split: if_splits list.splits option.splits)

text \<open>
  Claim C3, as stated, fails: \<open>increment\<close> (and \<open>decrement\<close>) log the backend's error
  and throw it again. Here the backend rejects the next command with a connection error,
  and \<open>increment\<close> rejects with that very error.
\<close>

theorem increment_propagates_backend_error:
  "fst (CacheService_increment ''hits'' 1
          \<lparr>redisClient = True, keyspace = [],
           redis_faults = [Some (new_Error ''Connection is closed.'')]\<rparr>)
     = Inl (new_Error ''Connection is closed.'')"
  by (simp add: CacheService_increment_def getRedisClient_def redis_incrby_def redis_command_def)

text \<open>
  Claim C3, amended: \<open>get\<close>, \<open>set\<close>, \<open>del\<close>, \<open>delPattern\<close>, \<open>exists\<close> and \<open>ttl\<close>
  never reject, whatever the state of the backend; when the backend fails the next
  command (or the client is missing) they return \<open>null\<close>, \<open>false\<close>, \<open>false\<close>, \<open>0\<close>,
  \<open>false\<close> and \<open>-1\<close>; \<open>delPattern\<close> also returns \<open>0\<close> when its second command
  fails. \<open>increment\<close> and \<open>decrement\<close> are the exception: they reject with the backend's
  error.
\<close>

theorem CacheService_fail_soft_except_counters:
  "(\<exists>x. fst (CacheService_get J key r) = Inr x)
   \<and> (\<exists>b. fst (CacheService_set J key v ttl r) = Inr b)
   \<and> (\<exists>b. fst (CacheService_del key r) = Inr b)
   \<and> (\<exists>n. fst (CacheService_delPattern pattern r) = Inr n)
   \<and> (\<exists>b. fst (CacheService_exists key r) = Inr b)
   \<and> (\<exists>n. fst (CacheService_ttl key r) = Inr n)
   \<and> (next_fault r = Some e \<longrightarrow>
         fst (CacheService_get J key r) = Inr JsNull
       \<and> fst (CacheService_set J key v ttl r) = Inr False
       \<and> fst (CacheService_del key r) = Inr False
       \<and> fst (CacheService_delPattern pattern r) = Inr 0
       \<and> fst (CacheService_exists key r) = Inr False
       \<and> fst (CacheService_ttl key r) = Inr (- 1)
       \<and> fst (CacheService_increment key amount r) = Inl e
       \<and> fst (CacheService_decrement key amount r) = Inl e)
   \<and> (redisClient r \<and> redis_faults r = None # Some e # fs \<longrightarrow>
         fst (CacheService_delPattern pattern r) = Inr 0)"
proof -
  have soft: "next_fault r = Some e \<longrightarrow>
         fst (CacheService_get J key r) = Inr JsNull
       \<and> fst (CacheService_set J key v ttl r) = Inr False
       \<and> fst (CacheService_del key r) = Inr False
       \<and> fst (CacheService_delPattern pattern r) = Inr 0
       \<and> fst (CacheService_exists key r) = Inr False
       \<and> fst (CacheService_ttl key r) = Inr (- 1)
       \<and> fst (CacheService_increment key amount r) = Inl e
       \<and> fst (CacheService_decrement key amount r) = Inl e"
    by (intro impI conjI get_on_fault set_on_fault del_on_fault delPattern_on_fault
        exists_on_fault ttl_on_fault increment_on_fault decrement_on_fault)
  have second: "redisClient r \<and> redis_faults r = None # Some e # fs \<longrightarrow>
         fst (CacheService_delPattern pattern r) = Inr 0"
    using delPattern_on_second_fault by blast
  show ?thesis
    by (intro conjI get_never_rejects set_never_rejects del_never_rejects
        delPattern_never_rejects exists_never_rejects ttl_never_rejects soft second)
qed

theorem CacheService_fail_soft_witness:
  "next_fault \<lparr>redisClient = True, keyspace = [(''user:1'', ''x'', Some 900)],
               redis_faults = [Some (new_Error ''Connection is closed.'')]\<rparr>
     = Some (new_Error ''Connection is closed.'')
   \<and> fst (CacheService_get \<lparr>JSON_stringify = (\<lambda>v :: unit js_value. ''{}''), JSON_parse = (\<lambda>s. None)\<rparr>
            ''user:1''
            \<lparr>redisClient = True, keyspace = [(''user:1'', ''x'', Some 900)],
             redis_faults = [Some (new_Error ''Connection is closed.'')]\<rparr>) = Inr JsNull
   \<and> fst (CacheService_del ''user:1''
            \<lparr>redisClient = True, keyspace = [(''user:1'', ''x'', Some 900)],
             redis_faults = [Some (new_Error ''Connection is closed.'')]\<rparr>) = Inr False
   \<and> fst (CacheService_ttl ''user:1''
            \<lparr>redisClient = True, keyspace = [(''user:1'', ''x'', Some 900)],
             redis_faults = [Some (new_Error ''Connection is closed.'')]\<rparr>) = Inr (- 1)
   \<and> fst (CacheService_decrement ''user:1'' 1
            \<lparr>redisClient = True, keyspace = [(''user:1'', ''x'', Some 900)],
             redis_faults = [Some (new_Error ''Connection is closed.'')]\<rparr>)
        = Inl (new_Error ''Connection is closed.'')"
proof -
  let ?r = "\<lparr>redisClient = True, keyspace = [(''user:1'', ''x'', Some 900)],
             redis_faults = [Some (new_Error ''Connection is closed.'')]\<rparr>"
  have down: "next_fault ?r = Some (new_Error ''Connection is closed.'')"
    by (simp add: next_fault_def)
  from CacheService_fail_soft_except_counters
         [of "\<lparr>JSON_stringify = (\<lambda>v :: unit js_value. ''{}''), JSON_parse = (\<lambda>s. None)\<rparr>"
             "''user:1''" ?r JsNull 900 "''user:1''" "new_Error ''Connection is closed.''" 1 "[]"]
       down
  show ?thesis by blast
qed

section \<open>The cache-aside primitive\<close>

lemma get_keyspace: "keyspace (snd (CacheService_get J key r)) = keyspace r"
  by (auto simp: CacheService_get_def redis_get_def redis_command_def
      split: sum.splits prod.splits option.splits list.splits)

lemma getOrSet_hit:
  assumes "fst (CacheService_get J key r) = Inr v" "v \<noteq> JsNull"
  shows "CacheService_getOrSet J key callback ttl (r, s)
           = (Inr v, snd (CacheService_get J key r), s)"
  using assms by (cases "CacheService_get J key r") (simp add: CacheService_getOrSet_def)

lemma getOrSet_miss_returns:
  assumes "fst (CacheService_get J key r) = Inr JsNull" "callback s = (Inr res, s1)"
  shows "CacheService_getOrSet J key callback ttl (r, s) =
           (Inr res, snd (CacheService_set J key res ttl (snd (CacheService_get J key r))), s1)"
proof -
  obtain r1 where g: "CacheService_get J key r = (Inr JsNull, r1)"
    using assms(1) by (cases "CacheService_get J key r") simp
  obtain b where "fst (CacheService_set J key res ttl r1) = Inr b"
    using set_never_rejects by blast
  then obtain r2 where "CacheService_set J key res ttl r1 = (Inr b, r2)"
    by (cases "CacheService_set J key res ttl r1") simp
  with g assms(2) show ?thesis
    by (simp add: CacheService_getOrSet_def)
qed

lemma getOrSet_miss_throws:
  assumes "fst (CacheService_get J key r) = Inr JsNull" "callback s = (Inl e, s1)"
  shows "CacheService_getOrSet J key callback ttl (r, s) =
           (fst (callback s1), snd (CacheService_get J key r), snd (callback s1))"
proof -
  obtain r1 where g: "CacheService_get J key r = (Inr JsNull, r1)"
    using assms(1) by (cases "CacheService_get J key r") simp
  with assms(2) show ?thesis
    by (simp add: CacheService_getOrSet_def getOrSet_catch_def split: prod.splits)
qed

lemma counted_run: "callback s = (res, s') \<Longrightarrow> counted callback (n, s) = (res, Suc n, s')"
  by (simp add: counted_def)

lemma get_state:
  "redisClient r \<Longrightarrow> snd (CacheService_get J key r) = r\<lparr>redis_faults := tl (redis_faults r)\<rparr>"
  by (auto simp: CacheService_get_def getRedisClient_def redis_get_def redis_command_def
      split: sum.splits prod.splits option.splits list.splits)

lemma next_fault_None: "next_fault r = None \<Longrightarrow> redisClient r"
  by (simp add: next_fault_def split: if_splits)

lemma get_answered:
  assumes "next_fault r = None"
  shows "fst (CacheService_get J key r) =
           Inr (case map_of (keyspace r) key of
                  None \<Rightarrow> JsNull
                | Some (cached, expiry) \<Rightarrow>
                    if cached = [] then JsNull
                    else (case JSON_parse J cached of
                            Some parsed \<Rightarrow> parsed
                          | None \<Rightarrow> JsString cached))"
  using assms
  by (auto simp: next_fault_def CacheService_get_def getRedisClient_def redis_get_def
      redis_command_def split: if_splits list.splits option.splits)

lemma set_stores:
  assumes "next_fault r = None" "0 < ttl"
  shows "fst (CacheService_set J key v ttl r) = Inr True"
    and "keyspace (snd (CacheService_set J key v ttl r))
           = (key, (case v of JsString str \<Rightarrow> str | _ \<Rightarrow> JSON_stringify J v), Some ttl)
             # filter (\<lambda>e. fst e \<noteq> key) (keyspace r)"
  using assms
  by (auto simp: next_fault_def CacheService_set_def getRedisClient_def redis_setex_def
      redis_command_def split: if_splits list.splits option.splits)

lemma set_fails_keyspace:
  assumes "next_fault r = Some e"
  shows "keyspace (snd (CacheService_set J key v ttl r)) = keyspace r"
  using assms
  by (auto simp: next_fault_def CacheService_set_def getRedisClient_def redis_setex_def
      redis_command_def split: if_splits list.splits option.splits)

lemma getOrSet_miss_counted:
  assumes "fst (CacheService_get J key r) = Inr JsNull" "producer s = (Inr res, s1)"
  shows "CacheService_getOrSet J key (counted producer) ttl (r, 0, s) =
           (Inr res, snd (CacheService_set J key res ttl (snd (CacheService_get J key r))), 1, s1)"
proof -
  have "counted producer (0, s) = (Inr res, Suc 0, s1)"
    using assms(2) by (simp add: counted_run)
  with assms(1) show ?thesis
    by (simp add: getOrSet_miss_returns)
qed

text \<open>
  Claim C2, as stated, fails: the cache may hold a value for the key and \<open>getOrSet\<close>
  still runs the producer. \<open>get\<close> returns \<open>null\<close> for a key that holds the empty
  string (\<open>if (!value) return null\<close>) and for a key that holds the string \<open>null\<close>
  (it deserialises to \<open>null\<close>), which is what \<open>set\<close> stores for the value \<open>null\<close>;
  \<open>getOrSet\<close> takes both for a miss. Here the key holds such a value, the backend is
  healthy, and the producer is run once and its result returned and written over the cached
  value.
\<close>

theorem getOrSet_runs_producer_on_cached_value:
  "map_of (keyspace \<lparr>redisClient = True, keyspace = [(''task:t1'', [], Some 300)],
                     redis_faults = []\<rparr>) ''task:t1'' = Some ([], Some 300)
   \<and> CacheService_getOrSet (opaque_JSON :: nat JSON) ''task:t1'' (counted example_producer) 300
        (\<lparr>redisClient = True, keyspace = [(''task:t1'', [], Some 300)], redis_faults = []\<rparr>, 0, 7)
      = (Inr (JsObject 7),
         \<lparr>redisClient = True, keyspace = [(''task:t1'', ''{}'', Some 300)], redis_faults = []\<rparr>,
         1, 7)
   \<and> snd (CacheService_set (null_JSON :: nat JSON) ''task:t1'' JsNull 300
             \<lparr>redisClient = True, keyspace = [], redis_faults = []\<rparr>)
      = \<lparr>redisClient = True, keyspace = [(''task:t1'', ''null'', Some 300)], redis_faults = []\<rparr>
   \<and> CacheService_getOrSet (null_JSON :: nat JSON) ''task:t1'' (counted example_producer) 300
        (\<lparr>redisClient = True, keyspace = [(''task:t1'', ''null'', Some 300)], redis_faults = []\<rparr>,
         0, 7)
      = (Inr (JsObject 7),
         \<lparr>redisClient = True, keyspace = [(''task:t1'', ''{}'', Some 300)], redis_faults = []\<rparr>,
         1, 7)"
  by code_simp

text \<open>
  Claim C2, amended. A hit is a read that yields a value other than \<open>null\<close>: then
  \<open>getOrSet\<close> returns it and the producer is not run (its run counter and state are
  untouched). On a backend that answers the read, that is a key holding a string that is
  not empty and does not deserialise to \<open>null\<close>: \<open>getOrSet\<close> returns the deserialised
  value, or the string itself when it cannot be deserialised, and only the fault schedule of
  the backend advances. A key that is absent, holds the empty string or holds a string
  that deserialises to \<open>null\<close> reads as \<open>null\<close>, and so does a failed read.

  When the read yields \<open>null\<close> and the producer returns \<open>res\<close>, the producer is run
  exactly once, \<open>set\<close> is called on the backend as the read left it, and \<open>res\<close> is
  returned with the backend as \<open>set\<close> leaves it, whatever the outcome of the write. When
  the write fails, \<open>set\<close> yields \<open>false\<close>, the cache holds what it held before and
  \<open>res\<close> is still returned. When the backend answers the write and the time to live is
  positive, the cache afterwards holds the serialised \<open>res\<close> under the key, with that
  time to live, and its other entries unchanged.
\<close>

theorem getOrSet_cache_aside:
  "(fst (CacheService_get J key r) = Inr v \<and> v \<noteq> JsNull \<longrightarrow>
      CacheService_getOrSet J key (counted producer) ttl (r, 0, s)
        = (Inr v, snd (CacheService_get J key r), 0, s))
   \<and> (next_fault r = None \<and> map_of (keyspace r) key = Some (cached, expiry)
        \<and> cached \<noteq> [] \<and> JSON_parse J cached \<noteq> Some JsNull \<longrightarrow>
        CacheService_getOrSet J key (counted producer) ttl (r, 0, s)
          = (Inr (case JSON_parse J cached of Some parsed \<Rightarrow> parsed | None \<Rightarrow> JsString cached),
             r\<lparr>redis_faults := tl (redis_faults r)\<rparr>, 0, s))
   \<and> (next_fault r = None
        \<and> (map_of (keyspace r) key = None
            \<or> map_of (keyspace r) key = Some ([], expiry)
            \<or> map_of (keyspace r) key = Some (cached, expiry)
                \<and> JSON_parse J cached = Some JsNull) \<longrightarrow>
        fst (CacheService_get J key r) = Inr JsNull)
   \<and> (fst (CacheService_get J key r) = Inr JsNull \<and> producer s = (Inr res, s1) \<longrightarrow>
        CacheService_getOrSet J key (counted producer) ttl (r, 0, s)
          = (Inr res,
             snd (CacheService_set J key res ttl (snd (CacheService_get J key r))), 1, s1))
   \<and> (next_fault r = Some e \<and> producer s = (Inr res, s1) \<longrightarrow>
        CacheService_getOrSet J key (counted producer) ttl (r, 0, s)
          = (Inr res,
             snd (CacheService_set J key res ttl (snd (CacheService_get J key r))), 1, s1))
   \<and> (fst (CacheService_get J key r) = Inr JsNull \<and> producer s = (Inr res, s1)
        \<and> fst (CacheService_set J key res ttl (snd (CacheService_get J key r))) = Inr False \<longrightarrow>
        fst (CacheService_getOrSet J key (counted producer) ttl (r, 0, s)) = Inr res)
   \<and> (fst (CacheService_get J key r) = Inr JsNull \<and> producer s = (Inr res, s1)
        \<and> next_fault (snd (CacheService_get J key r)) = Some e \<longrightarrow>
        fst (CacheService_set J key res ttl (snd (CacheService_get J key r))) = Inr False
        \<and> fst (CacheService_getOrSet J key (counted producer) ttl (r, 0, s)) = Inr res
        \<and> snd (snd (CacheService_getOrSet J key (counted producer) ttl (r, 0, s))) = (1, s1)
        \<and> keyspace (fst (snd (CacheService_getOrSet J key (counted producer) ttl (r, 0, s))))
            = keyspace r)
   \<and> (fst (CacheService_get J key r) = Inr JsNull \<and> producer s = (Inr res, s1)
        \<and> next_fault (snd (CacheService_get J key r)) = None \<and> 0 < ttl \<longrightarrow>
        fst (CacheService_set J key res ttl (snd (CacheService_get J key r))) = Inr True
        \<and> fst (CacheService_getOrSet J key (counted producer) ttl (r, 0, s)) = Inr res
        \<and> snd (snd (CacheService_getOrSet J key (counted producer) ttl (r, 0, s))) = (1, s1)
        \<and> keyspace (fst (snd (CacheService_getOrSet J key (counted producer) ttl (r, 0, s))))
            = (key, (case res of JsString str \<Rightarrow> str | _ \<Rightarrow> JSON_stringify J res), Some ttl)
              # filter (\<lambda>e. fst e \<noteq> key) (keyspace r))"
proof -
  have c1: "fst (CacheService_get J key r) = Inr v \<and> v \<noteq> JsNull
      \<longrightarrow> (CacheService_getOrSet J key (counted producer) ttl (r, 0, s)
        = (Inr v, snd (CacheService_get J key r), 0, s))"
  proof
    assume "fst (CacheService_get J key r) = Inr v \<and> v \<noteq> JsNull"
    then show "CacheService_getOrSet J key (counted producer) ttl (r, 0, s)
          = (Inr v, snd (CacheService_get J key r), 0, s)"
      by (simp add: getOrSet_hit)
  qed
  let ?v = "case JSON_parse J cached of Some parsed \<Rightarrow> parsed | None \<Rightarrow> JsString cached"
  have c2: "next_fault r = None \<and> map_of (keyspace r) key = Some (cached, expiry)
        \<and> cached \<noteq> [] \<and> JSON_parse J cached \<noteq> Some JsNull
      \<longrightarrow> (CacheService_getOrSet J key (counted producer) ttl (r, 0, s)
          = (Inr ?v, r\<lparr>redis_faults := tl (redis_faults r)\<rparr>, 0, s))"
  proof
    assume a: "next_fault r = None \<and> map_of (keyspace r) key = Some (cached, expiry)
          \<and> cached \<noteq> [] \<and> JSON_parse J cached \<noteq> Some JsNull"
    then have "fst (CacheService_get J key r) = Inr ?v"
      by (simp add: get_answered)
    moreover have "?v \<noteq> JsNull"
      using a by (cases "JSON_parse J cached") simp_all
    moreover have "snd (CacheService_get J key r) = r\<lparr>redis_faults := tl (redis_faults r)\<rparr>"
      using a by (simp add: get_state next_fault_None)
    ultimately show "CacheService_getOrSet J key (counted producer) ttl (r, 0, s)
            = (Inr ?v, r\<lparr>redis_faults := tl (redis_faults r)\<rparr>, 0, s)"
      using getOrSet_hit [of J key r ?v "counted producer" ttl "(0, s)"] by simp
  qed
  have c3: "next_fault r = None
        \<and> (map_of (keyspace r) key = None
            \<or> map_of (keyspace r) key = Some ([], expiry)
            \<or> map_of (keyspace r) key = Some (cached, expiry)
                \<and> JSON_parse J cached = Some JsNull)
      \<longrightarrow> (fst (CacheService_get J key r) = Inr JsNull)"
  proof
    assume a: "next_fault r = None
          \<and> (map_of (keyspace r) key = None
              \<or> map_of (keyspace r) key = Some ([], expiry)
              \<or> map_of (keyspace r) key = Some (cached, expiry)
                  \<and> JSON_parse J cached = Some JsNull)"
    then have "fst (CacheService_get J key r) =
             Inr (case map_of (keyspace r) key of
                    None \<Rightarrow> JsNull
                  | Some (cached, expiry) \<Rightarrow>
                      if cached = [] then JsNull
                      else (case JSON_parse J cached of
                              Some parsed \<Rightarrow> parsed
                            | None \<Rightarrow> JsString cached))"
      by (simp add: get_answered)
    with a show "fst (CacheService_get J key r) = Inr JsNull"
      by auto
  qed
  have c4: "fst (CacheService_get J key r) = Inr JsNull \<and> producer s = (Inr res, s1)
      \<longrightarrow> (CacheService_getOrSet J key (counted producer) ttl (r, 0, s)
          = (Inr res,
             snd (CacheService_set J key res ttl (snd (CacheService_get J key r))), 1, s1))"
  proof
    assume "fst (CacheService_get J key r) = Inr JsNull \<and> producer s = (Inr res, s1)"
    then show "CacheService_getOrSet J key (counted producer) ttl (r, 0, s)
            = (Inr res,
               snd (CacheService_set J key res ttl (snd (CacheService_get J key r))), 1, s1)"
      by (simp add: getOrSet_miss_counted)
  qed
  have c5: "next_fault r = Some e \<and> producer s = (Inr res, s1)
      \<longrightarrow> (CacheService_getOrSet J key (counted producer) ttl (r, 0, s)
          = (Inr res,
             snd (CacheService_set J key res ttl (snd (CacheService_get J key r))), 1, s1))"
  proof
    assume a: "next_fault r = Some e \<and> producer s = (Inr res, s1)"
    then have "fst (CacheService_get J key r) = Inr JsNull"
      by (simp add: get_on_fault)
    with a show "CacheService_getOrSet J key (counted producer) ttl (r, 0, s)
            = (Inr res,
               snd (CacheService_set J key res ttl (snd (CacheService_get J key r))), 1, s1)"
      by (simp add: getOrSet_miss_counted)
  qed
  have c6: "fst (CacheService_get J key r) = Inr JsNull \<and> producer s = (Inr res, s1)
        \<and> fst (CacheService_set J key res ttl (snd (CacheService_get J key r))) = Inr False
      \<longrightarrow> (fst (CacheService_getOrSet J key (counted producer) ttl (r, 0, s)) = Inr res)"
  proof
    assume "fst (CacheService_get J key r) = Inr JsNull \<and> producer s = (Inr res, s1)
          \<and> fst (CacheService_set J key res ttl (snd (CacheService_get J key r))) = Inr False"
    then show "fst (CacheService_getOrSet J key (counted producer) ttl (r, 0, s)) = Inr res"
      by (simp add: getOrSet_miss_counted)
  qed
  have c7: "fst (CacheService_get J key r) = Inr JsNull \<and> producer s = (Inr res, s1)
        \<and> next_fault (snd (CacheService_get J key r)) = Some e
      \<longrightarrow> (fst (CacheService_set J key res ttl (snd (CacheService_get J key r))) = Inr False
        \<and> fst (CacheService_getOrSet J key (counted producer) ttl (r, 0, s)) = Inr res
        \<and> snd (snd (CacheService_getOrSet J key (counted producer) ttl (r, 0, s))) = (1, s1)
        \<and> keyspace (fst (snd (CacheService_getOrSet J key (counted producer) ttl (r, 0, s))))
            = keyspace r)"
  proof
    assume a: "fst (CacheService_get J key r) = Inr JsNull \<and> producer s = (Inr res, s1)
          \<and> next_fault (snd (CacheService_get J key r)) = Some e"
    then have run: "CacheService_getOrSet J key (counted producer) ttl (r, 0, s)
            = (Inr res,
               snd (CacheService_set J key res ttl (snd (CacheService_get J key r))), 1, s1)"
      by (simp add: getOrSet_miss_counted)
    have "keyspace (snd (CacheService_set J key res ttl (snd (CacheService_get J key r))))
            = keyspace (snd (CacheService_get J key r))"
      using a by (simp add: set_fails_keyspace)
    then have kept: "keyspace (snd (CacheService_set J key res ttl (snd (CacheService_get J key r))))
            = keyspace r"
      by (simp add: get_keyspace)
    have failed: "fst (CacheService_set J key res ttl (snd (CacheService_get J key r))) = Inr False"
      using a by (simp add: set_on_fault)
    from run kept failed
    show "fst (CacheService_set J key res ttl (snd (CacheService_get J key r))) = Inr False
          \<and> fst (CacheService_getOrSet J key (counted producer) ttl (r, 0, s)) = Inr res
          \<and> snd (snd (CacheService_getOrSet J key (counted producer) ttl (r, 0, s))) = (1, s1)
          \<and> keyspace (fst (snd (CacheService_getOrSet J key (counted producer) ttl (r, 0, s))))
              = keyspace r"
      by simp
  qed
  have c8: "fst (CacheService_get J key r) = Inr JsNull \<and> producer s = (Inr res, s1)
        \<and> next_fault (snd (CacheService_get J key r)) = None \<and> 0 < ttl
      \<longrightarrow> (fst (CacheService_set J key res ttl (snd (CacheService_get J key r))) = Inr True
        \<and> fst (CacheService_getOrSet J key (counted producer) ttl (r, 0, s)) = Inr res
        \<and> snd (snd (CacheService_getOrSet J key (counted producer) ttl (r, 0, s))) = (1, s1)
        \<and> keyspace (fst (snd (CacheService_getOrSet J key (counted producer) ttl (r, 0, s))))
            = (key, (case res of JsString str \<Rightarrow> str | _ \<Rightarrow> JSON_stringify J res), Some ttl)
              # filter (\<lambda>e. fst e \<noteq> key) (keyspace r))"
  proof
    assume a: "fst (CacheService_get J key r) = Inr JsNull \<and> producer s = (Inr res, s1)
          \<and> next_fault (snd (CacheService_get J key r)) = None \<and> 0 < ttl"
    then have run: "CacheService_getOrSet J key (counted producer) ttl (r, 0, s)
            = (Inr res,
               snd (CacheService_set J key res ttl (snd (CacheService_get J key r))), 1, s1)"
      by (simp add: getOrSet_miss_counted)
    have "keyspace (snd (CacheService_set J key res ttl (snd (CacheService_get J key r))))
            = (key, (case res of JsString str \<Rightarrow> str | _ \<Rightarrow> JSON_stringify J res), Some ttl)
              # filter (\<lambda>e. fst e \<noteq> key) (keyspace (snd (CacheService_get J key r)))"
      using a by (simp add: set_stores(2))
    then have stored: "keyspace (snd (CacheService_set J key res ttl (snd (CacheService_get J key r))))
            = (key, (case res of JsString str \<Rightarrow> str | _ \<Rightarrow> JSON_stringify J res), Some ttl)
              # filter (\<lambda>e. fst e \<noteq> key) (keyspace r)"
      by (simp add: get_keyspace)
    have written: "fst (CacheService_set J key res ttl (snd (CacheService_get J key r))) = Inr True"
      using a by (simp add: set_stores(1))
    from run stored written
    show "fst (CacheService_set J key res ttl (snd (CacheService_get J key r))) = Inr True
          \<and> fst (CacheService_getOrSet J key (counted producer) ttl (r, 0, s)) = Inr res
          \<and> snd (snd (CacheService_getOrSet J key (counted producer) ttl (r, 0, s))) = (1, s1)
          \<and> keyspace (fst (snd (CacheService_getOrSet J key (counted producer) ttl (r, 0, s))))
              = (key, (case res of JsString str \<Rightarrow> str | _ \<Rightarrow> JSON_stringify J res), Some ttl)
                # filter (\<lambda>e. fst e \<noteq> key) (keyspace r)"
      by simp
  qed
  show ?thesis
    by (intro conjI c1 c2 c3 c4 c5 c6 c7 c8)
qed

theorem getOrSet_cache_aside_witness:
  "fst (CacheService_get (opaque_JSON :: nat JSON) ''task:t1'' (example_cache [])) = Inr (JsString ''{}'')
   \<and> map_of (keyspace (example_cache [])) ''task:t1'' = Some (''{}'', Some 300)
   \<and> CacheService_getOrSet (opaque_JSON :: nat JSON) ''task:t1'' (counted example_producer) 300
         (example_cache [], 0, 7)
       = (Inr (JsString ''{}''), example_cache [], 0, 7)
   \<and> next_fault (example_cache [Some connection_closed]) = Some connection_closed
   \<and> CacheService_getOrSet (opaque_JSON :: nat JSON) ''task:t1'' (counted example_producer) 300
         (example_cache [Some connection_closed], 0, 7)
       = (Inr (JsObject 7),
          (example_cache [])
            \<lparr>keyspace := (''task:t1'', ''{}'', Some 300)
                          # filter (\<lambda>e. fst e \<noteq> ''task:t1'') (keyspace (example_cache []))\<rparr>,
          1, 7)
   \<and> fst (CacheService_get (opaque_JSON :: nat JSON) ''task:zz''
            (example_cache [None, Some connection_closed])) = Inr JsNull
   \<and> fst (CacheService_set (opaque_JSON :: nat JSON) ''task:zz'' (JsObject 7) 300
            (snd (CacheService_get (opaque_JSON :: nat JSON) ''task:zz''
                    (example_cache [None, Some connection_closed])))) = Inr False
   \<and> CacheService_getOrSet (opaque_JSON :: nat JSON) ''task:zz'' (counted example_producer) 300
         (example_cache [None, Some connection_closed], 0, 7)
       = (Inr (JsObject 7), example_cache [], 1, 7)
   \<and> map_of (keyspace (example_cache [])) ''task:zz'' = None
   \<and> CacheService_getOrSet (opaque_JSON :: nat JSON) ''task:zz'' (counted example_producer) 300
         (example_cache [], 0, 7)
       = (Inr (JsObject 7),
          (example_cache [])\<lparr>keyspace := (''task:zz'', ''{}'', Some 300) # keyspace (example_cache [])\<rparr>,
          1, 7)"
proof -
  let ?J = "opaque_JSON :: nat JSON"
  let ?down = "example_cache [Some connection_closed]"
  let ?flaky = "example_cache [None, Some connection_closed]"
  have hit: "fst (CacheService_get ?J ''task:t1'' (example_cache [])) = Inr (JsString ''{}'')"
    by code_simp
  have distinct: "JsString ''{}'' \<noteq> (JsNull :: nat js_value)"
    by simp
  have healthy: "next_fault (example_cache []) = None"
    by code_simp
  have held: "map_of (keyspace (example_cache [])) ''task:t1'' = Some (''{}'', Some 300)"
    by code_simp
  have raw: "''{}'' \<noteq> []" "JSON_parse ?J ''{}'' \<noteq> Some JsNull"
    "(case JSON_parse ?J ''{}'' of Some parsed \<Rightarrow> parsed | None \<Rightarrow> JsString ''{}'')
       = JsString ''{}''"
    by (simp_all add: opaque_JSON_def)
  have same: "(example_cache [])\<lparr>redis_faults := tl (redis_faults (example_cache []))\<rparr>
                = example_cache []"
    by (simp add: example_cache_def)
  have after_hit: "snd (CacheService_get ?J ''task:t1'' (example_cache [])) = example_cache []"
    by code_simp
  have down: "next_fault ?down = Some connection_closed"
    by code_simp
  have after_down: "snd (CacheService_set ?J ''task:t1'' (JsObject 7) 300
                           (snd (CacheService_get ?J ''task:t1'' ?down)))
      = (example_cache [])
            \<lparr>keyspace := (''task:t1'', ''{}'', Some 300)
                          # filter (\<lambda>e. fst e \<noteq> ''task:t1'') (keyspace (example_cache []))\<rparr>"
    by code_simp
  have miss: "fst (CacheService_get ?J ''task:zz'' ?flaky) = Inr JsNull"
    by code_simp
  have write_scheduled: "next_fault (snd (CacheService_get ?J ''task:zz'' ?flaky))
                           = Some connection_closed"
    by code_simp
  have write_fails: "fst (CacheService_set ?J ''task:zz'' (JsObject 7) 300
            (snd (CacheService_get ?J ''task:zz'' ?flaky))) = Inr False"
    by code_simp
  have after_flaky: "snd (CacheService_set ?J ''task:zz'' (JsObject 7) 300
                            (snd (CacheService_get ?J ''task:zz'' ?flaky))) = example_cache []"
    by code_simp
  have absent: "map_of (keyspace (example_cache [])) ''task:zz'' = None"
    by code_simp
  have write_answered: "next_fault (snd (CacheService_get ?J ''task:zz'' (example_cache []))) = None"
    by code_simp
  have after_miss: "snd (CacheService_set ?J ''task:zz'' (JsObject 7) 300
                           (snd (CacheService_get ?J ''task:zz'' (example_cache []))))
      = (example_cache [])\<lparr>keyspace := (''task:zz'', ''{}'', Some 300) # keyspace (example_cache [])\<rparr>"
    by code_simp
  have run: "example_producer 7 = (Inr (JsObject 7), 7)"
    by (simp add: example_producer_def)
  have ttl: "(0::int) < 300"
    by simp
  note hit_inst = getOrSet_cache_aside
         [where J = ?J and key = "''task:t1''" and r = "example_cache []" and v = "JsString ''{}''"
            and producer = example_producer and ttl = 300 and s = 7
            and cached = "''{}''" and expiry = "Some 300"]
  from hit_inst hit distinct
  have 1: "CacheService_getOrSet ?J ''task:t1'' (counted example_producer) 300 (example_cache [], 0, 7)
       = (Inr (JsString ''{}''), snd (CacheService_get ?J ''task:t1'' (example_cache [])), 0, 7)"
    by blast
  from hit_inst healthy held raw(1,2)
  have 2: "CacheService_getOrSet ?J ''task:t1'' (counted example_producer) 300 (example_cache [], 0, 7)
       = (Inr (case JSON_parse ?J ''{}'' of Some parsed \<Rightarrow> parsed | None \<Rightarrow> JsString ''{}''),
          (example_cache [])\<lparr>redis_faults := tl (redis_faults (example_cache []))\<rparr>, 0, 7)"
    by blast
  note down_inst = getOrSet_cache_aside
         [where J = ?J and key = "''task:t1''" and r = ?down
            and producer = example_producer and ttl = 300 and s = 7 and res = "JsObject 7"
            and ?s1.0 = 7 and e = connection_closed]
  from down_inst down run
  have 3: "CacheService_getOrSet ?J ''task:t1'' (counted example_producer) 300 (?down, 0, 7)
       = (Inr (JsObject 7),
          snd (CacheService_set ?J ''task:t1'' (JsObject 7) 300
                 (snd (CacheService_get ?J ''task:t1'' ?down))), 1, 7)"
    by blast
  note flaky_inst = getOrSet_cache_aside
         [where J = ?J and key = "''task:zz''" and r = ?flaky
            and producer = example_producer and ttl = 300 and s = 7 and res = "JsObject 7"
            and ?s1.0 = 7 and e = connection_closed]
  from flaky_inst miss run
  have 4: "CacheService_getOrSet ?J ''task:zz'' (counted example_producer) 300 (?flaky, 0, 7)
       = (Inr (JsObject 7),
          snd (CacheService_set ?J ''task:zz'' (JsObject 7) 300
                 (snd (CacheService_get ?J ''task:zz'' ?flaky))), 1, 7)"
    by blast
  from flaky_inst miss run write_fails
  have 5: "fst (CacheService_getOrSet ?J ''task:zz'' (counted example_producer) 300 (?flaky, 0, 7))
             = Inr (JsObject 7)"
    by blast
  from flaky_inst miss run write_scheduled
  have 6: "keyspace (fst (snd (CacheService_getOrSet ?J ''task:zz'' (counted example_producer) 300
                                 (?flaky, 0, 7)))) = keyspace ?flaky"
    by blast
  note miss_inst = getOrSet_cache_aside
         [where J = ?J and key = "''task:zz''" and r = "example_cache []"
            and producer = example_producer and ttl = 300 and s = 7 and res = "JsObject 7"
            and ?s1.0 = 7 and expiry = None and cached = "[]"]
  from miss_inst healthy absent
  have 7: "fst (CacheService_get ?J ''task:zz'' (example_cache [])) = Inr JsNull"
    by blast
  from miss_inst 7 run
  have 8: "CacheService_getOrSet ?J ''task:zz'' (counted example_producer) 300 (example_cache [], 0, 7)
       = (Inr (JsObject 7),
          snd (CacheService_set ?J ''task:zz'' (JsObject 7) 300
                 (snd (CacheService_get ?J ''task:zz'' (example_cache [])))), 1, 7)"
    by blast
  from miss_inst 7 run write_answered ttl
  have 9: "keyspace (fst (snd (CacheService_getOrSet ?J ''task:zz'' (counted example_producer) 300
                                 (example_cache [], 0, 7))))
      = (''task:zz'', (case JsObject (7::nat) of JsString str \<Rightarrow> str | _ \<Rightarrow> JSON_stringify ?J (JsObject 7)),
         Some 300)
        # filter (\<lambda>e. fst e \<noteq> ''task:zz'') (keyspace (example_cache []))"
    by blast
  from hit held 2 [unfolded raw(3) same] down 3 [unfolded after_down] miss write_fails
       4 [unfolded after_flaky] absent 8 [unfolded after_miss]
  show ?thesis by blast
qed

text \<open>
  Claim C9. When the read yields \<open>null\<close> and the first run of the producer throws,
  \<open>getOrSet\<close> runs the producer a second time, from the state the first run left, and
  its outcome, value or error, is the outcome of that second run; the producer has then run
  exactly twice, and the cache holds what it held before (nothing is written, also when the
  second run returns a value).
\<close>

theorem getOrSet_runs_failing_producer_twice:
  assumes "fst (CacheService_get J key r) = Inr JsNull" "producer s = (Inl e, s1)"
  shows "\<exists>r'. CacheService_getOrSet J key (counted producer) ttl (r, 0, s)
            = (fst (producer s1), r', 2, snd (producer s1))
          \<and> keyspace r' = keyspace r"
proof -
  have 1: "counted producer (0, s) = (Inl e, Suc 0, s1)"
    using assms(2) by (simp add: counted_run)
  have 2: "counted producer (Suc 0, s1) = (fst (producer s1), Suc (Suc 0), snd (producer s1))"
    by (cases "producer s1") (simp add: counted_def)
  show ?thesis
    using getOrSet_miss_throws
            [where callback = "counted producer" and s = "(0, s)" and ttl = ttl, OF assms(1) 1] 2
    by (simp add: get_keyspace numeral_2_eq_2)
qed

theorem getOrSet_runs_failing_producer_twice_witness:
  "fst (CacheService_get (opaque_JSON :: task JSON) ''task:zz'' (example_cache [])) = Inr JsNull
   \<and> TaskService_findById_callback ''zz'' example_tasks
       = (Inl (new_Error ''Task with id zz not found''), example_tasks)
   \<and> (\<exists>r'. CacheService_getOrSet (opaque_JSON :: task JSON) ''task:zz''
               (counted (TaskService_findById_callback ''zz'')) CacheTTL_MEDIUM
               (example_cache [], 0, example_tasks)
             = (Inl (new_Error ''Task with id zz not found''), r', 2, example_tasks)
           \<and> keyspace r' = keyspace (example_cache []))"
proof -
  let ?J = "opaque_JSON :: task JSON"
  have miss: "fst (CacheService_get ?J ''task:zz'' (example_cache [])) = Inr JsNull"
    by code_simp
  have throws: "TaskService_findById_callback ''zz'' example_tasks
       = (Inl (new_Error ''Task with id zz not found''), example_tasks)"
    by code_simp
  from getOrSet_runs_failing_producer_twice
         [where J = ?J and key = "''task:zz''" and r = "example_cache []"
            and producer = "TaskService_findById_callback ''zz''" and s = example_tasks
            and e = "new_Error ''Task with id zz not found''" and ?s1.0 = example_tasks
            and ttl = CacheTTL_MEDIUM, OF miss throws]
       throws
  have "\<exists>r'. CacheService_getOrSet ?J ''task:zz''
               (counted (TaskService_findById_callback ''zz'')) CacheTTL_MEDIUM
               (example_cache [], 0, example_tasks)
             = (Inl (new_Error ''Task with id zz not found''), r', 2, example_tasks)
           \<and> keyspace r' = keyspace (example_cache [])"
    by simp
  with miss throws show ?thesis by blast
qed

section \<open>Pagination\<close>

lemma db_query_ok:
  "next_db_fault t = None \<Longrightarrow> db_query run t = run (t\<lparr>db_faults := tl (db_faults t)\<rparr>)"
  by (cases t) (auto simp: next_db_fault_def db_query_def split: list.splits option.splits)

lemma select_rows_faults [simp]: "select_rows cond (t\<lparr>db_faults := fs\<rparr>) = select_rows cond t"
  by (simp add: select_rows_def)

lemma length_apply_order [simp]: "length (apply_order ord rs) = length rs"
  by (simp add: apply_order_def split: option.splits)

lemma findAll_page:
  assumes "1 \<le> or_number (options_page options) 1" "1 \<le> or_number (options_limit options) 10"
    and "next_db_fault t = None"
    and "(or_number (options_page options) 1 - 1) * or_number (options_limit options) 10
           \<le> bigint_max"
    and "or_number (options_limit options) 10 \<le> bigint_max"
  shows "fst (BaseRepository_findAll options t) =
           Inr \<lparr>data = take (nat (or_number (options_limit options) 10))
                          (drop (nat ((or_number (options_page options) 1 - 1)
                                       * or_number (options_limit options) 10))
                             (apply_order (options_order options)
                                (select_rows (where_all (options_where options)) t))),
                pagination =
                  \<lparr>page = or_number (options_page options) 1,
                   limit = or_number (options_limit options) 10,
                   total = int (length (select_rows (where_all (options_where options)) t)),
                   totalPages =
                     \<lceil>real (length (select_rows (where_all (options_where options)) t))
                        / real_of_int (or_number (options_limit options) 10)\<rceil>,
                   hasNext =
                     (or_number (options_page options) 1
                        < \<lceil>real (length (select_rows (where_all (options_where options)) t))
                            / real_of_int (or_number (options_limit options) 10)\<rceil>),
                   hasPrevious = (or_number (options_page options) 1 > 1)\<rparr>\<rparr>"
proof -
  have nonneg: "\<not> (or_number (options_page options) 1 - 1) * or_number (options_limit options) 10 < 0"
    using assms(1,2) by (simp add: mult_less_0_iff)
  have "bigint_min < 0"
    by (simp add: bigint_min_def)
  with nonneg assms(2,4,5)
  have range: "\<not> out_of_bigint ((or_number (options_page options) 1 - 1)
                                 * or_number (options_limit options) 10)"
    "\<not> out_of_bigint (or_number (options_limit options) 10)"
    unfolding out_of_bigint_def by linarith+
  from nonneg range assms(1-3) show ?thesis
    by (simp add: BaseRepository_findAll_def orm_findAndCount_def db_query_ok rethrow_def Let_def)
qed





section \<open>Soft delete and restore\<close>

lemma db_query_healthy: "db_faults t = [] \<Longrightarrow> db_query run t = run t"
  by (simp add: db_query_def)

lemma affected_positive:
  "(or_number (Some (rows_with_id ident t)) 0 > 0) = (\<exists>r \<in> set (table_rows t). entity_id r = ident)"
  by (auto simp: or_number_def rows_with_id_def filter_empty_conv)

lemma findById_healthy:
  "db_faults t = [] \<Longrightarrow>
   BaseRepository_findById ident t =
     (Inr (case select_rows (\<lambda>r. entity_id r = ident) t of [] \<Rightarrow> None | r # rs \<Rightarrow> Some r), t)"
  by (simp add: BaseRepository_findById_def orm_findOne_def db_query_healthy rethrow_def)

lemma softDelete_healthy:
  "db_faults t = [] \<Longrightarrow>
   BaseRepository_softDelete ident now t =
     (Inr (\<exists>r \<in> set (table_rows t). entity_id r = ident),
      t\<lparr>table_rows := map (set_delete_date ident now (Some now)) (table_rows t)\<rparr>)"
  by (simp add: BaseRepository_softDelete_def orm_softDelete_def db_query_healthy rethrow_def
      affected_rows_def affected_positive)

lemma restore_healthy:
  "db_faults t = [] \<Longrightarrow>
   BaseRepository_restore ident now t =
     (Inr (\<exists>r \<in> set (table_rows t). entity_id r = ident),
      t\<lparr>table_rows := map (set_delete_date ident now None) (table_rows t)\<rparr>)"
  by (simp add: BaseRepository_restore_def orm_restore_def db_query_healthy rethrow_def
      affected_rows_def affected_positive)

lemma entity_id_set_delete_date [simp]: "entity_id (set_delete_date ident now d r) = entity_id r"
  by (simp add: set_delete_date_def)

lemma set_delete_date_twice:
  "set_delete_date ident later d' (set_delete_date ident now d r) = set_delete_date ident later d' r"
  by (simp add: set_delete_date_def)

lemma select_rows_softDeleted:
  "select_rows cond (t\<lparr>table_rows := map (set_delete_date ident now (Some now)) (table_rows t)\<rparr>)
     = filter (\<lambda>r. entity_id r \<noteq> ident \<and> live r \<and> cond r) (table_rows t)"
proof -
  have "filter (\<lambda>r. live r \<and> cond r) (map (set_delete_date ident now (Some now)) rs)
          = filter (\<lambda>r. entity_id r \<noteq> ident \<and> live r \<and> cond r) rs" for rs
    by (induction rs) (simp_all add: set_delete_date_def live_def)
  then show ?thesis by (simp add: select_rows_def)
qed

lemma select_id_restored:
  "select_rows (\<lambda>r. entity_id r = ident)
       (t\<lparr>table_rows := map (set_delete_date ident now None) (table_rows t)\<rparr>)
     = map (set_delete_date ident now None) (filter (\<lambda>r. entity_id r = ident) (table_rows t))"
proof -
  have "filter (\<lambda>r. live r \<and> entity_id r = ident) (map (set_delete_date ident now None) rs)
          = map (set_delete_date ident now None) (filter (\<lambda>r. entity_id r = ident) rs)" for rs
    by (induction rs) (simp_all add: set_delete_date_def live_def)
  then show ?thesis by (simp add: select_rows_def)
qed

lemma filter_key_distinct:
  "distinct (map f xs) \<Longrightarrow> x \<in> set xs \<Longrightarrow> filter (\<lambda>r. f r = f x) xs = [x]"
proof (induction xs)
  case Nil
  then show ?case by simp
next
  case (Cons a xs)
  show ?case
  proof (cases "a = x")
    case True
    have "f x \<notin> f ` set xs"
      using Cons.prems(1) True by simp
    then have "filter (\<lambda>r. f r = f x) xs = []"
      unfolding filter_empty_conv by (metis imageI)
    with True show ?thesis by simp
  next
    case False
    with Cons.prems have "x \<in> set xs" "f a \<noteq> f x" by auto
    with Cons show ?thesis by simp
  qed
qed

lemma select_rows_member:
  "select_rows cond t = r # rs \<Longrightarrow> r \<in> set (table_rows t) \<and> live r \<and> cond r"
proof -
  assume "select_rows cond t = r # rs"
  then have "r \<in> set (filter (\<lambda>r. live r \<and> cond r) (table_rows t))"
    by (simp add: select_rows_def)
  then show ?thesis by simp
qed

lemma findById_found:
  assumes "db_faults t = []" "fst (BaseRepository_findById ident t) = Inr (Some found)"
  shows "found \<in> set (table_rows t) \<and> live found \<and> entity_id found = ident"
  using assms select_rows_member [of "\<lambda>r. entity_id r = ident" t found]
  by (auto simp: findById_healthy split: list.splits)

lemma set_page_subset: "set (take n (drop k (apply_order ord xs))) \<subseteq> set xs"
proof -
  have "set (take n (drop k (apply_order ord xs))) \<subseteq> set (apply_order ord xs)"
    by (meson set_take_subset set_drop_subset subset_trans)
  then show ?thesis
    by (simp add: apply_order_def split: option.splits)
qed

lemma orm_findAndCount_rows:
  assumes "fst (orm_findAndCount cond ord skip tk t) = Inr (rows, cnt)"
  shows "set rows \<subseteq> set (select_rows cond t)"
proof -
  have "rows = take (nat tk) (drop (nat skip) (apply_order ord (select_rows cond t)))"
    using assms
    by (simp add: orm_findAndCount_def db_query_def Let_def
        split: list.splits option.splits if_splits)
  then show ?thesis
    by (simp add: set_page_subset)
qed

lemma findAll_data_subset:
  assumes "fst (BaseRepository_findAll options t) = Inr res"
  shows "set (data res) \<subseteq> set (select_rows (where_all (options_where options)) t)"
proof -
  let ?pg = "or_number (options_page options) 1"
  let ?lim = "or_number (options_limit options) 10"
  let ?q = "orm_findAndCount (where_all (options_where options)) (options_order options)
              ((?pg - 1) * ?lim) ?lim t"
  obtain out t' where q: "?q = (out, t')" by (cases ?q)
  show ?thesis
  proof (cases out)
    case (Inl e)
    with q assms show ?thesis
      by (simp add: BaseRepository_findAll_def Let_def rethrow_def)
  next
    case (Inr pr)
    obtain rows cnt where pr: "pr = (rows, cnt)" by (cases pr)
    have d: "data res = rows"
      using q Inr pr assms by (auto simp: BaseRepository_findAll_def Let_def rethrow_def)
    have "fst ?q = Inr (rows, cnt)"
      using q Inr pr by simp
    then have "set rows \<subseteq> set (select_rows (where_all (options_where options)) t)"
      by (rule orm_findAndCount_rows)
    with d show ?thesis by simp
  qed
qed

text \<open>
  Claim C5. In a table with unique primary keys and a store that answers, let \<open>findById\<close>
  find the live record \<open>found\<close> and let \<open>softDelete\<close> of its id succeed. Then
  \<open>findById\<close> returns nothing for the id, no page that \<open>findAll\<close> returns, under any
  options, holds a row with the id, and after \<open>restore\<close> (which succeeds) \<open>findById\<close>
  returns a record that agrees with \<open>found\<close> on the id, the creation time, the delete
  marker and every entity-specific field: only \<open>updatedAt\<close> may differ.
\<close>

theorem softDelete_hides_restore_returns:
  assumes healthy: "db_faults t = []"
    and pk: "distinct (map entity_id (table_rows t))"
    and found: "fst (BaseRepository_findById ident t) = Inr (Some found)"
    and deleted: "BaseRepository_softDelete ident now t = (Inr True, t2)"
  shows "fst (BaseRepository_findById ident t2) = Inr None
     \<and> (\<forall>options res. fst (BaseRepository_findAll options t2) = Inr res
            \<longrightarrow> ident \<notin> entity_id ` set (data res))
     \<and> (\<exists>t3 restored. BaseRepository_restore ident later t2 = (Inr True, t3)
            \<and> fst (BaseRepository_findById ident t3) = Inr (Some restored)
            \<and> entity_id restored = entity_id found
            \<and> createdAt restored = createdAt found
            \<and> deletedAt restored = deletedAt found
            \<and> entity.more restored = entity.more found)"
proof -
  have f: "found \<in> set (table_rows t)" "live found" "entity_id found = ident"
    using findById_found [OF healthy found] by simp_all
  have t2: "t2 = t\<lparr>table_rows := map (set_delete_date ident now (Some now)) (table_rows t)\<rparr>"
    using deleted by (simp add: softDelete_healthy [OF healthy])
  have h2: "db_faults t2 = []"
    using healthy by (simp add: t2)
  have none: "select_rows (\<lambda>r. entity_id r = ident) t2 = []"
    unfolding t2 select_rows_softDeleted by (simp add: filter_empty_conv)
  have c1: "fst (BaseRepository_findById ident t2) = Inr None"
    by (simp add: findById_healthy [OF h2] none)
  have c2: "ident \<notin> entity_id ` set (data res)"
    if "fst (BaseRepository_findAll options t2) = Inr res" for options res
  proof -
    have "set (data res) \<subseteq> set (select_rows (where_all (options_where options)) t2)"
      using that by (rule findAll_data_subset)
    also have "\<dots> \<subseteq> {r. entity_id r \<noteq> ident}"
      unfolding t2 select_rows_softDeleted by (simp add: subset_iff)
    finally show ?thesis by blast
  qed
  define t3 where "t3 = t2\<lparr>table_rows := map (set_delete_date ident later None) (table_rows t2)\<rparr>"
  have "found \<in> set (table_rows t)" by (rule f(1))
  then have "set_delete_date ident now (Some now) found \<in> set (table_rows t2)"
    by (simp add: t2)
  then have ex: "\<exists>r \<in> set (table_rows t2). entity_id r = ident"
    using f(3) by (metis entity_id_set_delete_date)
  have r3: "BaseRepository_restore ident later t2 = (Inr True, t3)"
    using ex by (simp add: restore_healthy [OF h2] t3_def)
  have ids: "filter (\<lambda>r. entity_id r = ident) (table_rows t) = [found]"
    using filter_key_distinct [OF pk f(1)] f(3) by simp
  have "filter (\<lambda>r. entity_id r = ident) (table_rows t2) = [set_delete_date ident now (Some now) found]"
    by (simp add: t2 filter_map comp_def ids)
  then have sel3: "select_rows (\<lambda>r. entity_id r = ident) t3
          = [set_delete_date ident later None found]"
    by (simp add: t3_def select_id_restored set_delete_date_twice)
  have h3: "db_faults t3 = []" using h2 by (simp add: t3_def)
  have c3: "fst (BaseRepository_findById ident t3) = Inr (Some (set_delete_date ident later None found))"
    by (simp add: findById_healthy [OF h3] sel3)
  have same: "entity_id (set_delete_date ident later None found) = entity_id found"
    "createdAt (set_delete_date ident later None found) = createdAt found"
    "deletedAt (set_delete_date ident later None found) = deletedAt found"
    "entity.more (set_delete_date ident later None found) = entity.more found"
    using f(2,3) by (simp_all add: set_delete_date_def live_def)
  from c2 have c2': "\<forall>options res. fst (BaseRepository_findAll options t2) = Inr res
            \<longrightarrow> ident \<notin> entity_id ` set (data res)"
    by blast
  from r3 c3 same have c3': "\<exists>t3 restored. BaseRepository_restore ident later t2 = (Inr True, t3)
            \<and> fst (BaseRepository_findById ident t3) = Inr (Some restored)
            \<and> entity_id restored = entity_id found
            \<and> createdAt restored = createdAt found
            \<and> deletedAt restored = deletedAt found
            \<and> entity.more restored = entity.more found"
    by blast
  from c1 c2' c3' show ?thesis by blast
qed

theorem softDelete_hides_restore_returns_witness:
  "db_faults example_tasks = []
   \<and> distinct (map entity_id (table_rows example_tasks))
   \<and> fst (BaseRepository_findById ''t1'' example_tasks)
        = Inr (Some (example_task ''t1'' TODO (Some 5) (Some ''A'') None))
   \<and> fst (BaseRepository_softDelete ''t1'' 10 example_tasks) = Inr True
   \<and> fst (BaseRepository_findById ''t1'' (snd (BaseRepository_softDelete ''t1'' 10 example_tasks)))
        = Inr None
   \<and> (\<exists>t3 restored.
          BaseRepository_restore ''t1'' 20 (snd (BaseRepository_softDelete ''t1'' 10 example_tasks))
            = (Inr True, t3)
        \<and> fst (BaseRepository_findById ''t1'' t3) = Inr (Some restored)
        \<and> entity_id restored = ''t1''
        \<and> createdAt restored = 1
        \<and> deletedAt restored = None
        \<and> entity.more restored
            = entity.more (example_task ''t1'' TODO (Some 5) (Some ''A'') None))"
proof -
  let ?found = "example_task ''t1'' TODO (Some 5) (Some ''A'') None"
  let ?t2 = "snd (BaseRepository_softDelete ''t1'' 10 example_tasks)"
  have healthy: "db_faults example_tasks = []"
    by (simp add: example_tasks_def)
  have pk: "distinct (map entity_id (table_rows example_tasks))"
    by (simp add: example_tasks_def example_task_def)
  have found: "fst (BaseRepository_findById ''t1'' example_tasks) = Inr (Some ?found)"
    by code_simp
  have ok: "fst (BaseRepository_softDelete ''t1'' 10 example_tasks) = Inr True"
    by code_simp
  then have deleted: "BaseRepository_softDelete ''t1'' 10 example_tasks = (Inr True, ?t2)"
    by (cases "BaseRepository_softDelete ''t1'' 10 example_tasks") simp
  have fields: "entity_id ?found = ''t1''" "createdAt ?found = 1" "deletedAt ?found = None"
    by (simp_all add: example_task_def)
  from softDelete_hides_restore_returns [OF healthy pk found deleted, of 20] fields
  have "fst (BaseRepository_findById ''t1'' ?t2) = Inr None
   \<and> (\<exists>t3 restored. BaseRepository_restore ''t1'' 20 ?t2 = (Inr True, t3)
        \<and> fst (BaseRepository_findById ''t1'' t3) = Inr (Some restored)
        \<and> entity_id restored = ''t1''
        \<and> createdAt restored = 1
        \<and> deletedAt restored = None
        \<and> entity.more restored = entity.more ?found)"
    by simp
  with healthy pk found ok show ?thesis by blast
qed


lemma restore_ok:
  assumes "next_db_fault t = None"
  shows "BaseRepository_restore ident now t =
     (Inr (\<exists>r \<in> set (table_rows t). entity_id r = ident),
      t\<lparr>db_faults := tl (db_faults t),
        table_rows := map (set_delete_date ident now None) (table_rows t)\<rparr>)"
proof -
  have "rows_with_id ident (t\<lparr>db_faults := fs\<rparr>) = rows_with_id ident t" for fs
    by (simp add: rows_with_id_def)
  then show ?thesis
    using assms affected_positive [of ident t]
    by (simp add: BaseRepository_restore_def orm_restore_def db_query_ok rethrow_def
      affected_rows_def)
qed

lemma set_delete_date_other:
  "\<forall>r \<in> set rs. entity_id r \<noteq> ident \<Longrightarrow> map (set_delete_date ident now d) rs = rs"
  by (induction rs) (simp_all add: set_delete_date_def)

lemma restored_row_live:
  assumes "r \<in> set (map (set_delete_date ident now None) rs)" "entity_id r = ident"
  shows "deletedAt r = None"
proof -
  obtain r0 where r0: "r = set_delete_date ident now None r0"
    using assms(1) by auto
  then have "entity_id r0 = ident" using assms(2) by simp
  with r0 show ?thesis by (simp add: set_delete_date_def)
qed

text \<open>
  Claim C7, as stated, fails: \<open>restore\<close> reports the rows that its \<open>UPDATE\<close> matched
  by id, and a row that was never soft-deleted is matched too. Here the only row of the
  table is live, and \<open>restore\<close> of its id returns \<open>true\<close>.
\<close>

theorem restore_of_live_row_returns_true:
  "fst (BaseRepository_restore ''a'' 5
          \<lparr>table_rows = [\<lparr>entity_id = ''a'', createdAt = 1, updatedAt = 1, deletedAt = None\<rparr>],
           db_faults = []\<rparr>) = Inr True"
  by (simp add: BaseRepository_restore_def orm_restore_def db_query_def rethrow_def
      affected_rows_def or_number_def rows_with_id_def)

text \<open>
  Claim C7, amended. With a store that answers, \<open>restore(id)\<close> returns \<open>true\<close> exactly
  when the table holds a row with that id, soft-deleted or not; every such row gets its
  delete marker cleared and \<open>updatedAt\<close> refreshed, and every other row is unchanged. So
  it returns \<open>false\<close> and leaves the table as it was when no row has the id, and it
  returns \<open>true\<close> with the marker cleared when the row was soft-deleted.
\<close>

theorem restore_affects_rows_by_id:
  assumes "next_db_fault t = None"
  shows "fst (BaseRepository_restore ident now t) = Inr (\<exists>r \<in> set (table_rows t). entity_id r = ident)
     \<and> table_rows (snd (BaseRepository_restore ident now t))
         = map (set_delete_date ident now None) (table_rows t)
     \<and> ((\<forall>r \<in> set (table_rows t). entity_id r \<noteq> ident) \<longrightarrow>
           fst (BaseRepository_restore ident now t) = Inr False
         \<and> table_rows (snd (BaseRepository_restore ident now t)) = table_rows t)
     \<and> ((\<exists>r \<in> set (table_rows t). entity_id r = ident \<and> deletedAt r \<noteq> None) \<longrightarrow>
           fst (BaseRepository_restore ident now t) = Inr True
         \<and> (\<forall>r \<in> set (table_rows (snd (BaseRepository_restore ident now t))).
               entity_id r = ident \<longrightarrow> deletedAt r = None))"
proof -
  have r: "BaseRepository_restore ident now t =
     (Inr (\<exists>r \<in> set (table_rows t). entity_id r = ident),
      t\<lparr>db_faults := tl (db_faults t),
        table_rows := map (set_delete_date ident now None) (table_rows t)\<rparr>)"
    using assms by (rule restore_ok)
  have res: "fst (BaseRepository_restore ident now t) = Inr (\<exists>r \<in> set (table_rows t). entity_id r = ident)"
    by (simp add: r)
  have rows: "table_rows (snd (BaseRepository_restore ident now t))
         = map (set_delete_date ident now None) (table_rows t)"
    by (simp add: r)
  have absent: "fst (BaseRepository_restore ident now t) = Inr False
         \<and> table_rows (snd (BaseRepository_restore ident now t)) = table_rows t"
    if "\<forall>r \<in> set (table_rows t). entity_id r \<noteq> ident"
    using that by (simp add: res rows set_delete_date_other)
  have marked: "fst (BaseRepository_restore ident now t) = Inr True
         \<and> (\<forall>r \<in> set (table_rows (snd (BaseRepository_restore ident now t))).
               entity_id r = ident \<longrightarrow> deletedAt r = None)"
    if "\<exists>r \<in> set (table_rows t). entity_id r = ident \<and> deletedAt r \<noteq> None"
  proof -
    from that have "\<exists>r \<in> set (table_rows t). entity_id r = ident" by blast
    then have "fst (BaseRepository_restore ident now t) = Inr True" by (simp add: res)
    moreover have "\<forall>r \<in> set (table_rows (snd (BaseRepository_restore ident now t))).
               entity_id r = ident \<longrightarrow> deletedAt r = None"
      unfolding rows using restored_row_live by blast
    ultimately show ?thesis by blast
  qed
  from res rows absent marked show ?thesis by blast
qed

theorem restore_affects_rows_by_id_witness:
  "next_db_fault example_tasks = None
   \<and> fst (BaseRepository_restore ''t3'' 20 example_tasks) = Inr True
   \<and> table_rows (snd (BaseRepository_restore ''t3'' 20 example_tasks))
       = map (set_delete_date ''t3'' 20 None) (table_rows example_tasks)
   \<and> fst (BaseRepository_restore ''zz'' 20 example_tasks) = Inr False
   \<and> table_rows (snd (BaseRepository_restore ''zz'' 20 example_tasks)) = table_rows example_tasks"
proof -
  have healthy: "next_db_fault example_tasks = None"
    by code_simp
  have marked: "\<exists>r \<in> set (table_rows example_tasks). entity_id r = ''t3'' \<and> deletedAt r \<noteq> None"
    by (simp add: example_tasks_def example_task_def)
  have absent: "\<forall>r \<in> set (table_rows example_tasks). entity_id r \<noteq> ''zz''"
    by (simp add: example_tasks_def example_task_def)
  from restore_affects_rows_by_id [OF healthy, of "''t3''" 20] marked
  have 1: "fst (BaseRepository_restore ''t3'' 20 example_tasks) = Inr True
     \<and> table_rows (snd (BaseRepository_restore ''t3'' 20 example_tasks))
       = map (set_delete_date ''t3'' 20 None) (table_rows example_tasks)"
    by blast
  from restore_affects_rows_by_id [OF healthy, of "''zz''" 20] absent
  have 2: "fst (BaseRepository_restore ''zz'' 20 example_tasks) = Inr False
     \<and> table_rows (snd (BaseRepository_restore ''zz'' 20 example_tasks)) = table_rows example_tasks"
    by blast
  from healthy 1 2 show ?thesis by blast
qed

section \<open>Errors of update\<close>


lemma rethrow_class:
  "fst (rethrow prefix res) = Inl e \<Longrightarrow> err_class e = ''Error'' \<and> err_statusCode e = None"
  by (cases res) (auto simp: rethrow_def new_Error_def split: sum.splits)

text \<open>
  Claim C8, as stated, fails: the repository throws plain \<open>Error\<close> objects only. Here an
  update of a missing row and an update over a lost connection both reject with an error of
  constructor \<open>Error\<close> and no status code; they differ in the message text alone, and the
  error handler gives both the status 500.
\<close>

theorem update_errors_share_one_kind:
  "fst (BaseRepository_update
          \<lparr>merge = (\<lambda>r p. r), violates = (\<lambda>r others. False), before_save = (\<lambda>r. r)\<rparr>
          ''a'' () 0 \<lparr>table_rows = ([] :: entity list), db_faults = []\<rparr>)
     = Inl (JsError ''Error'' ''Failed to update entity: Entity with id a not found'' None)
   \<and> fst (BaseRepository_update
          \<lparr>merge = (\<lambda>r p. r), violates = (\<lambda>r others. False), before_save = (\<lambda>r. r)\<rparr>
          ''a'' () 0
          \<lparr>table_rows = ([] :: entity list),
           db_faults = [Some (JsError ''Error'' ''Connection terminated unexpectedly'' None)]\<rparr>)
     = Inl (JsError ''Error''
              ''Failed to update entity: Failed to find entity: Connection terminated unexpectedly''
              None)
   \<and> errorHandler_statusCode
        (JsError ''Error'' ''Failed to update entity: Entity with id a not found'' None) = 500
   \<and> errorHandler_statusCode
        (JsError ''Error''
              ''Failed to update entity: Failed to find entity: Connection terminated unexpectedly''
              None) = 500"
  by (simp add: BaseRepository_update_def BaseRepository_findById_def orm_findOne_def
      db_query_def rethrow_def new_Error_def select_rows_def errorHandler_statusCode_def
      or_number_def)

text \<open>
  Claim C8, amended. When the store answers and no live row has the id, \<open>update\<close> rejects
  with \<open>Error("Failed to update entity: Entity with id <id> not found")\<close>. Every rejection
  of \<open>update\<close>, whatever its cause, is a plain \<open>Error\<close> without a status code, which
  the error handler maps to the status 500: the causes differ by message text only.
\<close>

theorem update_rejections_are_plain_errors:
  "(next_db_fault t = None \<and> select_rows (\<lambda>r. entity_id r = ident) t = [] \<longrightarrow>
      fst (BaseRepository_update M ident partial now t)
        = Inl (new_Error (''Failed to update entity: Entity with id '' @ ident @ '' not found'')))
   \<and> (\<forall>e. fst (BaseRepository_update M ident partial now t) = Inl e \<longrightarrow>
          err_class e = ''Error'' \<and> err_statusCode e = None \<and> errorHandler_statusCode e = 500)"
proof -
  have missing: "fst (BaseRepository_update M ident partial now t)
        = Inl (new_Error (''Failed to update entity: Entity with id '' @ ident @ '' not found''))"
    if a: "next_db_fault t = None \<and> select_rows (\<lambda>r. entity_id r = ident) t = []"
  proof -
    have "BaseRepository_findById ident t = (Inr None, t\<lparr>db_faults := tl (db_faults t)\<rparr>)"
      using a by (simp add: BaseRepository_findById_def orm_findOne_def db_query_ok rethrow_def)
    then show ?thesis
      by (simp add: BaseRepository_update_def rethrow_def new_Error_def)
  qed
  have plain: "err_class e = ''Error'' \<and> err_statusCode e = None \<and> errorHandler_statusCode e = 500"
    if "fst (BaseRepository_update M ident partial now t) = Inl e" for e
  proof -
    have "err_class e = ''Error'' \<and> err_statusCode e = None"
      using that unfolding BaseRepository_update_def by (rule rethrow_class)
    then show ?thesis
      by (simp add: errorHandler_statusCode_def or_number_def)
  qed
  from missing plain show ?thesis by blast
qed

theorem update_rejections_are_plain_errors_witness:
  "next_db_fault example_tasks = None
   \<and> select_rows (\<lambda>r. entity_id r = ''zz'') example_tasks = []
   \<and> fst (BaseRepository_update Task_metadata ''zz'' no_changes 10 example_tasks)
       = Inl (new_Error ''Failed to update entity: Entity with id zz not found'')
   \<and> err_class (new_Error ''Failed to update entity: Entity with id zz not found'') = ''Error''
   \<and> errorHandler_statusCode (new_Error ''Failed to update entity: Entity with id zz not found'')
       = 500"
proof -
  let ?e = "new_Error ''Failed to update entity: Entity with id zz not found''"
  have healthy: "next_db_fault example_tasks = None"
    by code_simp
  have missing: "select_rows (\<lambda>r. entity_id r = ''zz'') example_tasks = []"
    by code_simp
  from update_rejections_are_plain_errors
         [of example_tasks "''zz''" Task_metadata no_changes 10] healthy missing
  have 1: "fst (BaseRepository_update Task_metadata ''zz'' no_changes 10 example_tasks) = Inl ?e"
    by simp
  from update_rejections_are_plain_errors
         [of example_tasks "''zz''" Task_metadata no_changes 10] 1
  have "err_class ?e = ''Error'' \<and> errorHandler_statusCode ?e = 500"
    by blast
  with healthy missing 1 show ?thesis by blast
qed

section \<open>Overdue tasks\<close>

lemma overdue_status_filter:
  "status_equals (or_string (TaskStatus_value TODO) (TaskStatus_value IN_PROGRESS)) x
     = (status x = TODO)"
  by (cases "status x") (simp_all add: status_equals_def or_string_def)

lemma rethrow_Inr: "fst (rethrow prefix res) = Inr a \<Longrightarrow> fst res = Inr a"
  by (cases res) (auto simp: rethrow_def split: sum.splits)

lemma rethrow_ok: "fst res = Inr a \<Longrightarrow> fst (rethrow prefix res) = Inr a"
  by (cases res) (auto simp: rethrow_def)

lemma findOverdue_members:
  assumes "fst (TaskRepository_findOverdue options now t) = Inr res" "x \<in> set (data res)"
  shows "status x = TODO \<and> dueDate_LessThan now x \<and> live x"
proof -
  let ?opts = "options\<lparr>options_where :=
                     Some (\<lambda>r. dueDate_LessThan now r
                               \<and> status_equals (or_string (TaskStatus_value TODO)
                                                            (TaskStatus_value IN_PROGRESS)) r),
                   options_relations := task_relations\<rparr>"
  have "fst (BaseRepository_findAll ?opts t) = Inr res"
    using assms(1) unfolding TaskRepository_findOverdue_def by (rule rethrow_Inr)
  then have "set (data res) \<subseteq> set (select_rows (where_all (options_where ?opts)) t)"
    by (rule findAll_data_subset)
  with assms(2) have "x \<in> set (select_rows (where_all (options_where ?opts)) t)" by blast
  then show ?thesis
    unfolding overdue_status_filter by (simp add: select_rows_def where_all_def)
qed

lemma findOverdue_answers:
  assumes "1 \<le> or_number (options_page options) 1" "1 \<le> or_number (options_limit options) 10"
    and "next_db_fault t = None"
    and "(or_number (options_page options) 1 - 1) * or_number (options_limit options) 10
           \<le> bigint_max"
    and "or_number (options_limit options) 10 \<le> bigint_max"
  shows "\<exists>res. fst (TaskRepository_findOverdue options now t) = Inr res
     \<and> data res = take (nat (or_number (options_limit options) 10))
                     (drop (nat ((or_number (options_page options) 1 - 1)
                                  * or_number (options_limit options) 10))
                        (apply_order (options_order options)
                           (filter (\<lambda>r. live r \<and> dueDate_LessThan now r \<and> status r = TODO)
                              (table_rows t))))"
proof -
  let ?opts = "options\<lparr>options_where :=
                     Some (\<lambda>r. dueDate_LessThan now r
                               \<and> status_equals (or_string (TaskStatus_value TODO)
                                                            (TaskStatus_value IN_PROGRESS)) r),
                   options_relations := task_relations\<rparr>"
  have sel: "select_rows (where_all (options_where ?opts)) t
               = filter (\<lambda>r. live r \<and> dueDate_LessThan now r \<and> status r = TODO) (table_rows t)"
    unfolding overdue_status_filter by (simp add: select_rows_def where_all_def)
  have "1 \<le> or_number (options_page ?opts) 1" "1 \<le> or_number (options_limit ?opts) 10"
    using assms(1,2) by simp_all
  moreover have "(or_number (options_page ?opts) 1 - 1) * or_number (options_limit ?opts) 10
                   \<le> bigint_max"
    "or_number (options_limit ?opts) 10 \<le> bigint_max"
    using assms(4,5) by simp_all
  ultimately have "\<exists>res. fst (BaseRepository_findAll ?opts t) = Inr res
     \<and> data res = take (nat (or_number (options_limit ?opts) 10))
                          (drop (nat ((or_number (options_page ?opts) 1 - 1)
                                       * or_number (options_limit ?opts) 10))
                             (apply_order (options_order ?opts)
                                (select_rows (where_all (options_where ?opts)) t)))"
    using findAll_page [of ?opts t] assms(3) by simp
  then
  obtain res where r: "fst (BaseRepository_findAll ?opts t) = Inr res"
    and d: "data res = take (nat (or_number (options_limit ?opts) 10))
                          (drop (nat ((or_number (options_page ?opts) 1 - 1)
                                       * or_number (options_limit ?opts) 10))
                             (apply_order (options_order ?opts)
                                (select_rows (where_all (options_where ?opts)) t)))"
    by blast
  have "fst (TaskRepository_findOverdue options now t) = Inr res"
    unfolding TaskRepository_findOverdue_def using r by (rule rethrow_ok)
  moreover have "data res = take (nat (or_number (options_limit options) 10))
                     (drop (nat ((or_number (options_page options) 1 - 1)
                                  * or_number (options_limit options) 10))
                        (apply_order (options_order options)
                           (filter (\<lambda>r. live r \<and> dueDate_LessThan now r \<and> status r = TODO)
                              (table_rows t))))"
    using d unfolding sel by simp
  ultimately show ?thesis by blast
qed

lemma db_query_result:
  assumes "db_query (\<lambda>t. (Inr (f t), t)) t = (Inr a, t')"
    and "\<And>fs. f (t\<lparr>db_faults := fs\<rparr>) = f t"
  shows "a = f t \<and> table_rows t' = table_rows t"
  using assms
  by (auto simp: db_query_def split: list.splits option.splits)

lemma orm_count_result:
  assumes "orm_count cond t = (Inr n, t')"
  shows "n = int (length (select_rows cond t)) \<and> table_rows t' = table_rows t"
  using db_query_result [where f = "\<lambda>t. int (length (select_rows cond t))" and t = t and a = n and t' = t']
    assms
  by (simp add: orm_count_def)

lemma BaseRepository_count_result:
  assumes "BaseRepository_count w t = (Inr n, t')"
  shows "table_rows t' = table_rows t"
proof -
  obtain out t1 where c: "orm_count (where_all w) t = (out, t1)" by (cases "orm_count (where_all w) t")
  with assms have "out = Inr n" "t1 = t'"
    by (auto simp: BaseRepository_count_def rethrow_def split: sum.splits)
  with c show ?thesis using orm_count_result by blast
qed

lemma await_Inr:
  assumes "fst (await m body s) = Inr b"
  obtains a s' where "m s = (Inr a, s')" "fst (body a s') = Inr b"
  using assms by (cases "m s") (auto simp: await_def split: sum.splits)

lemma select_rows_cong_rows:
  "table_rows t' = table_rows t \<Longrightarrow> select_rows cond t' = select_rows cond t"
  by (simp add: select_rows_def)

lemma getUserTaskStats_overdue:
  assumes "fst (TaskRepository_getUserTaskStats userId now t) = Inr st"
  shows "stats_overdue st =
           int (length (filter (\<lambda>r. live r \<and> assigneeId r = Some userId
                                    \<and> dueDate_LessThan now r \<and> status r = TODO) (table_rows t)))"
proof -
  let ?overdue = "\<lambda>r. assigneeId r = Some userId \<and> dueDate_LessThan now r
                              \<and> status_equals (or_string (TaskStatus_value TODO)
                                                           (TaskStatus_value IN_PROGRESS)) r"
  from assms have a: "fst (await (BaseRepository_count (Some (\<lambda>r. assigneeId r = Some userId))) (\<lambda>n_total.
        await (BaseRepository_count
                 (Some (\<lambda>r. assigneeId r = Some userId \<and> status_equals (TaskStatus_value TODO) r)))
          (\<lambda>n_todo.
        await (BaseRepository_count
                 (Some (\<lambda>r. assigneeId r = Some userId
                            \<and> status_equals (TaskStatus_value IN_PROGRESS) r)))
          (\<lambda>n_inProgress.
        await (BaseRepository_count
                 (Some (\<lambda>r. assigneeId r = Some userId \<and> status_equals (TaskStatus_value DONE) r)))
          (\<lambda>n_done.
        await (orm_count ?overdue)
          (\<lambda>overdueTasks.
        resolve \<lparr>stats_total = n_total, stats_todo = n_todo, stats_inProgress = n_inProgress,
                 stats_done = n_done, stats_overdue = overdueTasks\<rparr>))))) t) = Inr st"
    unfolding TaskRepository_getUserTaskStats_def by (rule rethrow_Inr)
  from a obtain n1 t1 where 1: "BaseRepository_count (Some (\<lambda>r. assigneeId r = Some userId)) t = (Inr n1, t1)"
    and a1: "fst (await (BaseRepository_count
                 (Some (\<lambda>r. assigneeId r = Some userId \<and> status_equals (TaskStatus_value TODO) r)))
          (\<lambda>n_todo.
        await (BaseRepository_count
                 (Some (\<lambda>r. assigneeId r = Some userId
                            \<and> status_equals (TaskStatus_value IN_PROGRESS) r)))
          (\<lambda>n_inProgress.
        await (BaseRepository_count
                 (Some (\<lambda>r. assigneeId r = Some userId \<and> status_equals (TaskStatus_value DONE) r)))
          (\<lambda>n_done.
        await (orm_count ?overdue)
          (\<lambda>overdueTasks.
        resolve \<lparr>stats_total = n1, stats_todo = n_todo, stats_inProgress = n_inProgress,
                 stats_done = n_done, stats_overdue = overdueTasks\<rparr>)))) t1) = Inr st"
    by (rule await_Inr)
  from a1 obtain n2 t2 where 2: "BaseRepository_count
                 (Some (\<lambda>r. assigneeId r = Some userId \<and> status_equals (TaskStatus_value TODO) r)) t1 = (Inr n2, t2)"
    and a2: "fst (await (BaseRepository_count
                 (Some (\<lambda>r. assigneeId r = Some userId
                            \<and> status_equals (TaskStatus_value IN_PROGRESS) r)))
          (\<lambda>n_inProgress.
        await (BaseRepository_count
                 (Some (\<lambda>r. assigneeId r = Some userId \<and> status_equals (TaskStatus_value DONE) r)))
          (\<lambda>n_done.
        await (orm_count ?overdue)
          (\<lambda>overdueTasks.
        resolve \<lparr>stats_total = n1, stats_todo = n2, stats_inProgress = n_inProgress,
                 stats_done = n_done, stats_overdue = overdueTasks\<rparr>))) t2) = Inr st"
    by (rule await_Inr)
  from a2 obtain n3 t3 where 3: "BaseRepository_count
                 (Some (\<lambda>r. assigneeId r = Some userId
                            \<and> status_equals (TaskStatus_value IN_PROGRESS) r)) t2 = (Inr n3, t3)"
    and a3: "fst (await (BaseRepository_count
                 (Some (\<lambda>r. assigneeId r = Some userId \<and> status_equals (TaskStatus_value DONE) r)))
          (\<lambda>n_done.
        await (orm_count ?overdue)
          (\<lambda>overdueTasks.
        resolve \<lparr>stats_total = n1, stats_todo = n2, stats_inProgress = n3,
                 stats_done = n_done, stats_overdue = overdueTasks\<rparr>)) t3) = Inr st"
    by (rule await_Inr)
  from a3 obtain n4 t4 where 4: "BaseRepository_count
                 (Some (\<lambda>r. assigneeId r = Some userId \<and> status_equals (TaskStatus_value DONE) r)) t3 = (Inr n4, t4)"
    and a4: "fst (await (orm_count ?overdue)
          (\<lambda>overdueTasks.
        resolve \<lparr>stats_total = n1, stats_todo = n2, stats_inProgress = n3,
                 stats_done = n4, stats_overdue = overdueTasks\<rparr>) t4) = Inr st"
    by (rule await_Inr)
  from a4 obtain n5 t5 where 5: "orm_count ?overdue t4 = (Inr n5, t5)"
    and a5: "fst (resolve \<lparr>stats_total = n1, stats_todo = n2, stats_inProgress = n3,
                 stats_done = n4, stats_overdue = n5\<rparr> t5) = Inr st"
    by (rule await_Inr)
  have rows: "table_rows t4 = table_rows t"
    using BaseRepository_count_result [OF 1] BaseRepository_count_result [OF 2]
      BaseRepository_count_result [OF 3] BaseRepository_count_result [OF 4] by simp
  have "n5 = int (length (select_rows ?overdue t4))"
    using orm_count_result [OF 5] by simp
  also have "select_rows ?overdue t4 = select_rows ?overdue t"
    using rows by (rule select_rows_cong_rows)
  also have "\<dots> = filter (\<lambda>r. live r \<and> assigneeId r = Some userId
                                    \<and> dueDate_LessThan now r \<and> status r = TODO) (table_rows t)"
    unfolding overdue_status_filter by (simp add: select_rows_def conj_ac)
  finally have "n5 = int (length (filter (\<lambda>r. live r \<and> assigneeId r = Some userId
                                    \<and> dueDate_LessThan now r \<and> status r = TODO) (table_rows t)))" .
  moreover have "stats_overdue st = n5"
    using a5 by (auto simp: resolve_def)
  ultimately show ?thesis by simp
qed

lemma count_healthy:
  "db_faults t = [] \<Longrightarrow>
   BaseRepository_count w t = (Inr (int (length (select_rows (where_all w) t))), t)"
  by (simp add: BaseRepository_count_def orm_count_def db_query_healthy rethrow_def)

lemma getUserTaskStats_answers:
  assumes "db_faults t = []"
  shows "\<exists>st. fst (TaskRepository_getUserTaskStats userId now t) = Inr st"
  using assms
  by (simp add: TaskRepository_getUserTaskStats_def await_def count_healthy orm_count_def
      db_query_healthy resolve_def rethrow_def)

text \<open>
  Claim C10. The status filter \<open>TaskStatus.TODO || TaskStatus.IN_PROGRESS\<close> is the single
  status \<open>TODO\<close>. Every task that \<open>findOverdue\<close> returns is live, has a due date in
  the past and the status \<open>TODO\<close>, so a task in status \<open>IN_PROGRESS\<close> is never among
  them, whatever its due date; and the \<open>overdue\<close> component of \<open>getUserTaskStats\<close> is
  the number of the user's live tasks with a past due date and status \<open>TODO\<close>. Both
  queries do return when the store answers: \<open>findOverdue\<close> then returns the page of
  exactly those tasks, for a page and a limit of at least \<open>1\<close> whose offset and limit lie
  within the store's 64-bit integers.
\<close>

theorem overdue_selects_only_TODO:
  "or_string (TaskStatus_value TODO) (TaskStatus_value IN_PROGRESS) = TaskStatus_value TODO
   \<and> (\<forall>res. fst (TaskRepository_findOverdue options now t) = Inr res \<longrightarrow>
          (\<forall>y \<in> set (data res). status y = TODO \<and> dueDate_LessThan now y \<and> live y))
   \<and> (\<forall>res. status x = IN_PROGRESS \<and> fst (TaskRepository_findOverdue options now t) = Inr res
          \<longrightarrow> x \<notin> set (data res))
   \<and> (\<forall>st. fst (TaskRepository_getUserTaskStats userId now t) = Inr st \<longrightarrow>
          stats_overdue st =
            int (length (filter (\<lambda>r. live r \<and> assigneeId r = Some userId
                                     \<and> dueDate_LessThan now r \<and> status r = TODO) (table_rows t))))
   \<and> (1 \<le> or_number (options_page options) 1 \<and> 1 \<le> or_number (options_limit options) 10
        \<and> (or_number (options_page options) 1 - 1) * or_number (options_limit options) 10
              \<le> bigint_max
        \<and> or_number (options_limit options) 10 \<le> bigint_max
        \<and> next_db_fault t = None \<longrightarrow>
        (\<exists>res. fst (TaskRepository_findOverdue options now t) = Inr res
           \<and> data res = take (nat (or_number (options_limit options) 10))
                     (drop (nat ((or_number (options_page options) 1 - 1)
                                  * or_number (options_limit options) 10))
                        (apply_order (options_order options)
                           (filter (\<lambda>r. live r \<and> dueDate_LessThan now r \<and> status r = TODO)
                              (table_rows t))))))
   \<and> (db_faults t = [] \<longrightarrow> (\<exists>st. fst (TaskRepository_getUserTaskStats userId now t) = Inr st))"
proof -
  have 1: "or_string (TaskStatus_value TODO) (TaskStatus_value IN_PROGRESS) = TaskStatus_value TODO"
    by (simp add: or_string_def)
  have 2: "\<forall>res. fst (TaskRepository_findOverdue options now t) = Inr res \<longrightarrow>
          (\<forall>y \<in> set (data res). status y = TODO \<and> dueDate_LessThan now y \<and> live y)"
    using findOverdue_members by blast
  have 3: "\<forall>res. status x = IN_PROGRESS \<and> fst (TaskRepository_findOverdue options now t) = Inr res
          \<longrightarrow> x \<notin> set (data res)"
  proof (intro allI impI notI)
    fix res
    assume a: "status x = IN_PROGRESS \<and> fst (TaskRepository_findOverdue options now t) = Inr res"
      and "x \<in> set (data res)"
    then have "status x = TODO" using findOverdue_members by blast
    with a show False by simp
  qed
  have 4: "\<forall>st. fst (TaskRepository_getUserTaskStats userId now t) = Inr st \<longrightarrow>
          stats_overdue st =
            int (length (filter (\<lambda>r. live r \<and> assigneeId r = Some userId
                                     \<and> dueDate_LessThan now r \<and> status r = TODO) (table_rows t)))"
    using getUserTaskStats_overdue by blast
  have 5: "1 \<le> or_number (options_page options) 1 \<and> 1 \<le> or_number (options_limit options) 10
        \<and> (or_number (options_page options) 1 - 1) * or_number (options_limit options) 10
              \<le> bigint_max
        \<and> or_number (options_limit options) 10 \<le> bigint_max
        \<and> next_db_fault t = None \<longrightarrow>
        (\<exists>res. fst (TaskRepository_findOverdue options now t) = Inr res
           \<and> data res = take (nat (or_number (options_limit options) 10))
                     (drop (nat ((or_number (options_page options) 1 - 1)
                                  * or_number (options_limit options) 10))
                        (apply_order (options_order options)
                           (filter (\<lambda>r. live r \<and> dueDate_LessThan now r \<and> status r = TODO)
                              (table_rows t)))))"
    using findOverdue_answers by blast
  have 6: "db_faults t = [] \<longrightarrow> (\<exists>st. fst (TaskRepository_getUserTaskStats userId now t) = Inr st)"
    using getUserTaskStats_answers by blast
  from 1 2 3 4 5 6 show ?thesis by blast
qed

theorem overdue_selects_only_TODO_witness:
  "status (example_task ''t2'' IN_PROGRESS (Some 5) (Some ''A'') None) = IN_PROGRESS
   \<and> dueDate_LessThan 10 (example_task ''t2'' IN_PROGRESS (Some 5) (Some ''A'') None)
   \<and> example_task ''t2'' IN_PROGRESS (Some 5) (Some ''A'') None \<in> set (table_rows example_tasks)
   \<and> (\<exists>res. fst (TaskRepository_findOverdue (page_options 1 10) 10 example_tasks) = Inr res
          \<and> data res = [example_task ''t1'' TODO (Some 5) (Some ''A'') None]
          \<and> example_task ''t2'' IN_PROGRESS (Some 5) (Some ''A'') None \<notin> set (data res))
   \<and> (\<exists>st. fst (TaskRepository_getUserTaskStats ''A'' 10 example_tasks) = Inr st
          \<and> stats_overdue st = 1)"
proof -
  let ?t1 = "example_task ''t1'' TODO (Some 5) (Some ''A'') None"
  let ?t2 = "example_task ''t2'' IN_PROGRESS (Some 5) (Some ''A'') None"
  note inst = overdue_selects_only_TODO [of "page_options 1 10" 10 example_tasks ?t2 "''A''"]
  have a: "status ?t2 = IN_PROGRESS" "dueDate_LessThan 10 ?t2" "?t2 \<in> set (table_rows example_tasks)"
    by (simp_all add: example_task_def example_tasks_def dueDate_LessThan_def)
  have pre: "1 \<le> or_number (options_page (page_options 1 10)) 1"
    "1 \<le> or_number (options_limit (page_options 1 10)) 10"
    "next_db_fault example_tasks = None" "db_faults example_tasks = []"
    "(or_number (options_page (page_options 1 10)) 1 - 1)
       * or_number (options_limit (page_options 1 10)) 10 \<le> bigint_max"
    "or_number (options_limit (page_options 1 10)) 10 \<le> bigint_max"
    by (simp_all add: page_options_def or_number_def example_tasks_def next_db_fault_def
        bigint_max_def)
  have page: "take (nat (or_number (options_limit (page_options 1 10)) 10))
                (drop (nat ((or_number (options_page (page_options 1 10)) 1 - 1)
                             * or_number (options_limit (page_options 1 10)) 10))
                   (apply_order (options_order (page_options 1 10))
                      (filter (\<lambda>r. live r \<and> dueDate_LessThan 10 r \<and> status r = TODO)
                         (table_rows example_tasks)))) = [?t1]"
    by code_simp
  have cnt: "int (length (filter (\<lambda>r. live r \<and> assigneeId r = Some ''A''
                                     \<and> dueDate_LessThan 10 r \<and> status r = TODO)
                            (table_rows example_tasks))) = 1"
    by code_simp
  from inst pre(1-3,5,6) obtain res where
    res: "fst (TaskRepository_findOverdue (page_options 1 10) 10 example_tasks) = Inr res"
      "data res = take (nat (or_number (options_limit (page_options 1 10)) 10))
                (drop (nat ((or_number (options_page (page_options 1 10)) 1 - 1)
                             * or_number (options_limit (page_options 1 10)) 10))
                   (apply_order (options_order (page_options 1 10))
                      (filter (\<lambda>r. live r \<and> dueDate_LessThan 10 r \<and> status r = TODO)
                         (table_rows example_tasks))))"
    by blast
  from inst a(1) res(1) have out: "?t2 \<notin> set (data res)"
    by blast
  from inst pre(4) obtain st where
    st: "fst (TaskRepository_getUserTaskStats ''A'' 10 example_tasks) = Inr st"
    by blast
  from inst st cnt have "stats_overdue st = 1"
    by simp
  with a res(1) res(2) [unfolded page] out st show ?thesis
    by blast
qed

section \<open>Invalidation after mutations\<close>

lemma only_deletedI:
  assumes "keyspace b = filter (\<lambda>e. P (fst e)) (keyspace a)"
  shows "only_deleted a b"
proof -
  have "filter (\<lambda>e. fst e \<in> set (map fst (filter (\<lambda>e. P (fst e)) xs))) xs = filter (\<lambda>e. P (fst e)) xs"
    for xs :: "(string \<times> string \<times> int option) list"
    by (rule filter_cong) (force simp: image_iff)+
  with assms show ?thesis by (simp add: only_deleted_def)
qed

lemma only_deleted_refl: "keyspace b = keyspace a \<Longrightarrow> only_deleted a b"
  by (rule only_deletedI [where P = "\<lambda>k. True"]) simp

lemma only_deleted_trans:
  assumes "only_deleted a b" "only_deleted b c"
  shows "only_deleted a c"
proof -
  let ?P = "\<lambda>k. k \<in> set (map fst (keyspace b))"
  let ?Q = "\<lambda>k. k \<in> set (map fst (keyspace c))"
  have "keyspace c = filter (\<lambda>e. ?Q (fst e)) (filter (\<lambda>e. ?P (fst e)) (keyspace a))"
    using assms by (simp add: only_deleted_def)
  then have "keyspace c = filter (\<lambda>e. ?P (fst e) \<and> ?Q (fst e)) (keyspace a)"
    by (simp add: conj_commute)
  then show ?thesis by (rule only_deletedI)
qed

lemma redis_command_keyspace:
  assumes "\<And>r. only_deleted r (snd (run r))"
  shows "only_deleted r (snd (redis_command run r))"
proof -
  have a: "only_deleted r (snd (run (r\<lparr>redis_faults := fs\<rparr>)))" for fs
  proof -
    have "only_deleted r (r\<lparr>redis_faults := fs\<rparr>)" by (simp add: only_deleted_refl)
    then show ?thesis using assms only_deleted_trans by blast
  qed
  show ?thesis
    by (simp add: redis_command_def a assms only_deleted_refl split: list.splits option.splits)
qed

lemma redis_del_only: "only_deleted r (snd (redis_del ks r))"
  unfolding redis_del_def
  by (rule redis_command_keyspace) (simp add: only_deletedI [where P = "\<lambda>k. k \<notin> set ks"])

lemma redis_keys_only: "only_deleted r (snd (redis_keys pattern r))"
  unfolding redis_keys_def
  by (rule redis_command_keyspace) (simp add: only_deleted_refl)

lemma CacheService_del_only: "only_deleted r (snd (CacheService_del key r))"
proof -
  have "only_deleted r (snd (redis_del [key] r))" by (rule redis_del_only)
  then show ?thesis
    by (auto simp: CacheService_del_def only_deleted_refl split: sum.splits prod.splits)
qed

lemma CacheService_delPattern_only: "only_deleted r (snd (CacheService_delPattern pattern r))"
proof -
  obtain out r1 where k: "redis_keys pattern r = (out, r1)" by (cases "redis_keys pattern r")
  have 1: "only_deleted r r1" using redis_keys_only [of r pattern] k by simp
  have 2: "only_deleted r (snd (redis_del ks r1))" for ks
    using 1 redis_del_only only_deleted_trans by blast
  have 3: "redis_del ks r1 = (o2, r2) \<Longrightarrow> only_deleted r r2" for ks o2 r2
    using 2 [of ks] by simp
  show ?thesis
    using k 1 3
    by (auto simp: CacheService_delPattern_def only_deleted_refl split: sum.splits prod.splits)
qed

lemma invalidateTaskCache_only: "only_deleted r (snd (invalidateTaskCache taskId r))"
  using CacheService_del_only [of r "CachePrefix_TASK @ taskId"]
  by (auto simp: invalidateTaskCache_def split: sum.splits prod.splits)

lemma invalidateUserCache_only: "only_deleted r (snd (invalidateUserCache userId r))"
proof -
  obtain o1 r1 where 1: "CacheService_del (CachePrefix_USER @ userId) r = (o1, r1)"
    by (cases "CacheService_del (CachePrefix_USER @ userId) r")
  obtain o2 r2 where 2: "CacheService_delPattern (CachePrefix_USER_TASKS @ userId @ '':*'') r1 = (o2, r2)"
    by (cases "CacheService_delPattern (CachePrefix_USER_TASKS @ userId @ '':*'') r1")
  obtain o3 r3 where 3: "CacheService_del (CachePrefix_TASK_STATS @ userId) r2 = (o3, r3)"
    by (cases "CacheService_del (CachePrefix_TASK_STATS @ userId) r2")
  have a: "only_deleted r r1" using CacheService_del_only [of r] 1 by (metis snd_conv)
  have "only_deleted r1 r2" using CacheService_delPattern_only [of r1] 2 by (metis snd_conv)
  with a have b: "only_deleted r r2" by (rule only_deleted_trans)
  have "only_deleted r2 r3" using CacheService_del_only [of r2] 3 by (metis snd_conv)
  with b have c: "only_deleted r r3" by (rule only_deleted_trans)
  show ?thesis
    using 1 2 3 a b c by (simp add: invalidateUserCache_def split: sum.splits)
qed

lemma deletes_only_resolve: "deletes_only (resolve a)"
  by (simp add: deletes_only_def resolve_def only_deleted_refl)

lemma deletes_only_throw: "deletes_only (throw e)"
  by (simp add: deletes_only_def throw_def only_deleted_refl)

lemma deletes_only_on_store: "deletes_only (on_store m)"
  by (simp add: deletes_only_def on_store_def only_deleted_refl split: prod.splits)

lemma deletes_only_on_cache:
  "(\<And>r. only_deleted r (snd (m r))) \<Longrightarrow> deletes_only (on_cache m)"
  by (simp add: deletes_only_def on_cache_def split: prod.splits) (metis snd_conv)

lemma deletes_only_await:
  assumes "deletes_only m" "\<And>a. deletes_only (body a)"
  shows "deletes_only (await m body)"
proof -
  have "only_deleted r (fst (snd (await m body (r, s))))" for r s
  proof (cases "m (r, s)")
    case (fields out r1 s1)
    have 1: "only_deleted r r1" using assms(1) fields by (metis deletes_only_def fst_conv snd_conv)
    show ?thesis
    proof (cases out)
      case (Inl e)
      with fields 1 show ?thesis by (simp add: await_def)
    next
      case (Inr a)
      have "only_deleted r1 (fst (snd (body a (r1, s1))))"
        using assms(2) by (simp add: deletes_only_def)
      with 1 have "only_deleted r (fst (snd (body a (r1, s1))))" by (rule only_deleted_trans)
      with fields Inr show ?thesis by (simp add: await_def)
    qed
  qed
  then show ?thesis by (simp add: deletes_only_def)
qed

lemma deletes_only_invalidate_if_set: "deletes_only (invalidate_if_set a)"
  by (auto simp: invalidate_if_set_def deletes_only_resolve
      intro!: deletes_only_on_cache invalidateUserCache_only split: option.splits)

lemmas deletes_only_intros =
  deletes_only_await deletes_only_on_store deletes_only_resolve deletes_only_throw
  deletes_only_invalidate_if_set
  deletes_only_on_cache [OF invalidateUserCache_only]
  deletes_only_on_cache [OF invalidateTaskCache_only]

lemma deletes_only_case_option:
  "deletes_only n \<Longrightarrow> (\<And>x. deletes_only (f x)) \<Longrightarrow> deletes_only (case v of None \<Rightarrow> n | Some x \<Rightarrow> f x)"
  by (cases v) simp_all

lemma deletes_only_if:
  "deletes_only a \<Longrightarrow> deletes_only b \<Longrightarrow> deletes_only (if c then a else b)"
  by simp

lemma TaskService_updateTask_deletes_only: "deletes_only (TaskService_updateTask ident dto now)"
  unfolding TaskService_updateTask_def
  by (intro deletes_only_intros deletes_only_case_option deletes_only_if)

lemma TaskService_updateStatus_deletes_only: "deletes_only (TaskService_updateStatus ident st now)"
  unfolding TaskService_updateStatus_def
  by (intro deletes_only_intros deletes_only_case_option deletes_only_if)

lemma TaskService_assignTask_deletes_only: "deletes_only (TaskService_assignTask taskId userId now)"
  unfolding TaskService_assignTask_def
  by (intro deletes_only_intros deletes_only_case_option deletes_only_if)

lemma TaskService_unassignTask_deletes_only: "deletes_only (TaskService_unassignTask taskId now)"
  unfolding TaskService_unassignTask_def
  by (intro deletes_only_intros deletes_only_case_option deletes_only_if)

lemma TaskService_deleteTask_deletes_only: "deletes_only (TaskService_deleteTask ident now)"
  unfolding TaskService_deleteTask_def
  by (intro deletes_only_intros deletes_only_case_option deletes_only_if)

lemma UserService_changePassword_deletes_only:
  "deletes_only (UserService_changePassword lower_trim hash compare ident old new now)"
  unfolding UserService_changePassword_def
  by (intro deletes_only_intros deletes_only_case_option deletes_only_if)

lemma UserService_deactivateUser_deletes_only:
  "deletes_only (UserService_deactivateUser lower_trim ident now)"
  unfolding UserService_deactivateUser_def
  by (intro deletes_only_intros deletes_only_case_option deletes_only_if)

lemma UserService_deleteUser_deletes_only: "deletes_only (UserService_deleteUser ident now)"
  unfolding UserService_deleteUser_def
  by (intro deletes_only_intros deletes_only_case_option deletes_only_if)

lemma redis_command_healthy: "redis_faults r = [] \<Longrightarrow> redis_command run r = run r"
  by (simp add: redis_command_def)

lemma set_healthy:
  assumes "redisClient r" "redis_faults r = []" "0 < ttl"
  shows "CacheService_set J key v ttl r =
    (Inr True, r\<lparr>keyspace := (key, (case v of JsString s \<Rightarrow> s | _ \<Rightarrow> JSON_stringify J v), Some ttl)
                               # filter (\<lambda>e. fst e \<noteq> key) (keyspace r)\<rparr>)"
  using assms
  by (simp add: CacheService_set_def getRedisClient_def redis_setex_def redis_command_healthy)

lemma del_healthy:
  assumes "redisClient r" "redis_faults r = []"
  shows "snd (CacheService_del key r) = r\<lparr>keyspace := filter (\<lambda>e. fst e \<noteq> key) (keyspace r)\<rparr>"
  using assms
  by (simp add: CacheService_del_def getRedisClient_def redis_del_def redis_command_healthy)

lemma filter_none_matching: "filter P xs = [] \<Longrightarrow> filter (\<lambda>x. \<not> P x) xs = xs"
  by (induction xs) (auto split: if_splits)

lemma delPattern_healthy:
  assumes "redisClient r" "redis_faults r = []"
  shows "snd (CacheService_delPattern pattern r)
           = r\<lparr>keyspace := filter (\<lambda>e. \<not> glob_match pattern (fst e)) (keyspace r)\<rparr>"
proof (cases "filter (\<lambda>e. glob_match pattern (fst e)) (keyspace r) = []")
  case True
  then have "filter (\<lambda>e. \<not> glob_match pattern (fst e)) (keyspace r) = keyspace r"
    by (rule filter_none_matching)
  with True assms show ?thesis
    by (simp add: CacheService_delPattern_def getRedisClient_def redis_keys_def
        redis_command_healthy)
next
  case False
  have "filter (\<lambda>e. fst e \<notin> fst ` set (filter (\<lambda>e. glob_match pattern (fst e)) xs)) xs
          = filter (\<lambda>e. \<not> glob_match pattern (fst e)) xs"
    for xs :: "(string \<times> string \<times> int option) list"
    by (rule filter_cong) (force simp: image_iff)+
  with False assms show ?thesis
    by (simp add: CacheService_delPattern_def getRedisClient_def redis_keys_def redis_del_def
        redis_command_healthy)
qed

lemma healthy_after_del:
  assumes "redisClient r" "redis_faults r = []"
  shows "redisClient (snd (CacheService_del key r))" "redis_faults (snd (CacheService_del key r)) = []"
  using assms by (simp_all add: del_healthy)

lemma invalidateUserCache_healthy:
  assumes "redisClient r" "redis_faults r = []"
  shows "snd (invalidateUserCache userId r)
     = r\<lparr>keyspace := filter (\<lambda>e. fst e \<noteq> CachePrefix_USER @ userId
                                  \<and> \<not> glob_match (CachePrefix_USER_TASKS @ userId @ '':*'') (fst e)
                                  \<and> fst e \<noteq> CachePrefix_TASK_STATS @ userId) (keyspace r)\<rparr>"
proof -
  obtain o1 r1 where 1: "CacheService_del (CachePrefix_USER @ userId) r = (Inr o1, r1)"
    using del_never_rejects [of "CachePrefix_USER @ userId" r]
    by (cases "CacheService_del (CachePrefix_USER @ userId) r") auto
  have r1: "r1 = r\<lparr>keyspace := filter (\<lambda>e. fst e \<noteq> CachePrefix_USER @ userId) (keyspace r)\<rparr>"
    using del_healthy [OF assms, of "CachePrefix_USER @ userId"] 1 by simp
  then have h1: "redisClient r1" "redis_faults r1 = []" using assms by simp_all
  obtain o2 r2 where 2: "CacheService_delPattern (CachePrefix_USER_TASKS @ userId @ '':*'') r1 = (Inr o2, r2)"
    using delPattern_never_rejects [of "CachePrefix_USER_TASKS @ userId @ '':*''" r1]
    by (cases "CacheService_delPattern (CachePrefix_USER_TASKS @ userId @ '':*'') r1") auto
  have r2: "r2 = r1\<lparr>keyspace := filter (\<lambda>e. \<not> glob_match (CachePrefix_USER_TASKS @ userId @ '':*'') (fst e)) (keyspace r1)\<rparr>"
    using delPattern_healthy [OF h1, of "CachePrefix_USER_TASKS @ userId @ '':*''"] 2 by simp
  then have h2: "redisClient r2" "redis_faults r2 = []" using h1 by simp_all
  obtain o3 r3 where 3: "CacheService_del (CachePrefix_TASK_STATS @ userId) r2 = (Inr o3, r3)"
    using del_never_rejects [of "CachePrefix_TASK_STATS @ userId" r2]
    by (cases "CacheService_del (CachePrefix_TASK_STATS @ userId) r2") auto
  have r3: "r3 = r2\<lparr>keyspace := filter (\<lambda>e. fst e \<noteq> CachePrefix_TASK_STATS @ userId) (keyspace r2)\<rparr>"
    using del_healthy [OF h2, of "CachePrefix_TASK_STATS @ userId"] 3 by simp
  have "snd (invalidateUserCache userId r) = r3"
    using 1 2 3 by (simp add: invalidateUserCache_def)
  also have "\<dots> = r\<lparr>keyspace := filter (\<lambda>e. fst e \<noteq> CachePrefix_USER @ userId
                                  \<and> \<not> glob_match (CachePrefix_USER_TASKS @ userId @ '':*'') (fst e)
                                  \<and> fst e \<noteq> CachePrefix_TASK_STATS @ userId) (keyspace r)\<rparr>"
    by (simp add: r3 r2 r1 conj_ac)
  finally show ?thesis .
qed

lemma map_of_filter_key:
  "map_of (filter (\<lambda>e. P (fst e)) xs) k = (if P k then map_of xs k else None)"
  by (induction xs) auto

lemma task_key_survives_invalidateUserCache:
  assumes "redisClient r" "redis_faults r = []"
  shows "map_of (keyspace (snd (invalidateUserCache userId r))) (CachePrefix_TASK @ taskId)
           = map_of (keyspace r) (CachePrefix_TASK @ taskId)"
proof -
  let ?P = "\<lambda>k. k \<noteq> CachePrefix_USER @ userId
                \<and> \<not> glob_match (CachePrefix_USER_TASKS @ userId @ '':*'') k
                \<and> k \<noteq> CachePrefix_TASK_STATS @ userId"
  have "?P (CachePrefix_TASK @ taskId)"
    by (simp add: CachePrefix_TASK_def CachePrefix_USER_def CachePrefix_USER_TASKS_def
        CachePrefix_TASK_STATS_def)
  moreover have "keyspace (snd (invalidateUserCache userId r)) = filter (\<lambda>e. ?P (fst e)) (keyspace r)"
    by (simp add: invalidateUserCache_healthy [OF assms])
  ultimately show ?thesis
    using map_of_filter_key [where P = ?P and xs = "keyspace r" and k = "CachePrefix_TASK @ taskId"]
    by simp
qed

lemma invalidateUserCache_returns: "fst (invalidateUserCache userId r) = Inr ()"
  by (simp add: invalidateUserCache_def split: sum.splits prod.splits)

lemma invalidate_if_set_task_key:
  assumes "redisClient r" "redis_faults r = []"
  shows "\<exists>r2. invalidate_if_set a (r, s) = (Inr (), r2, s)
           \<and> map_of (keyspace r2) (CachePrefix_TASK @ k) = map_of (keyspace r) (CachePrefix_TASK @ k)"
proof (cases "a = None \<or> a = Some []")
  case True
  then show ?thesis by (auto simp: invalidate_if_set_def resolve_def)
next
  case False
  then obtain u where a: "a = Some u" "u \<noteq> []" by auto
  obtain r2 where i: "invalidateUserCache u r = (Inr (), r2)"
    using invalidateUserCache_returns [of u r] by (cases "invalidateUserCache u r") simp
  have "map_of (keyspace r2) (CachePrefix_TASK @ k) = map_of (keyspace r) (CachePrefix_TASK @ k)"
    using task_key_survives_invalidateUserCache [OF assms, of u k] i by simp
  with a i show ?thesis by (simp add: invalidate_if_set_def on_cache_def)
qed

lemma createTask_shape:
  assumes h: "redisClient r" "redis_faults r = []" "0 < ttl"
    and ok: "fst (await (on_store m) (\<lambda>created.
               await (on_cache (CacheService_set J (CachePrefix_TASK @ entity_id created) (JsObject created) ttl))
                 (\<lambda>stored. await (invalidate_if_set a) (\<lambda>u. resolve created))) (r, t)) = Inr created"
  shows "map_of (keyspace (fst (snd (await (on_store m) (\<lambda>created.
               await (on_cache (CacheService_set J (CachePrefix_TASK @ entity_id created) (JsObject created) ttl))
                 (\<lambda>stored. await (invalidate_if_set a) (\<lambda>u. resolve created))) (r, t)))))
            (CachePrefix_TASK @ entity_id created)
          = Some (JSON_stringify J (JsObject created), Some ttl)"
proof -
  obtain out t1 where m: "m t = (out, t1)" by (cases "m t")
  show ?thesis
  proof (cases out)
    case (Inl e)
    with m ok show ?thesis by (simp add: await_def on_store_def)
  next
    case (Inr c)
    let ?key = "CachePrefix_TASK @ entity_id c"
    let ?r1 = "r\<lparr>keyspace := (?key, JSON_stringify J (JsObject c), Some ttl)
                               # filter (\<lambda>e. fst e \<noteq> ?key) (keyspace r)\<rparr>"
    have s: "CacheService_set J ?key (JsObject c) ttl r = (Inr True, ?r1)"
      using set_healthy [OF h, of J ?key "JsObject c"] by simp
    have h1: "redisClient ?r1" "redis_faults ?r1 = []" using h by simp_all
    obtain r2 where i: "invalidate_if_set a (?r1, t1) = (Inr (), r2, t1)"
      and k: "map_of (keyspace r2) ?key = map_of (keyspace ?r1) ?key"
      using invalidate_if_set_task_key [OF h1, of a t1 "entity_id c"] by blast
    have run: "await (on_store m) (\<lambda>created.
               await (on_cache (CacheService_set J (CachePrefix_TASK @ entity_id created) (JsObject created) ttl))
                 (\<lambda>stored. await (invalidate_if_set a) (\<lambda>u. resolve created))) (r, t) = (Inr c, r2, t1)"
      using m Inr s i by (simp add: await_def on_store_def on_cache_def resolve_def)
    with ok have "created = c" by simp
    with run k show ?thesis by simp
  qed
qed

lemma createTask_caches:
  assumes "redisClient r" "redis_faults r = []"
    and "fst (TaskService_createTask J dto new_id now (r, t)) = Inr created"
  shows "map_of (keyspace (fst (snd (TaskService_createTask J dto new_id now (r, t)))))
            (CachePrefix_TASK @ entity_id created)
          = Some (JSON_stringify J (JsObject created), Some CacheTTL_MEDIUM)"
proof -
  have pos: "0 < CacheTTL_MEDIUM" by (simp add: CacheTTL_MEDIUM_def)
  show ?thesis
    unfolding TaskService_createTask_def
    by (rule createTask_shape [OF assms(1,2) pos assms(3) [unfolded TaskService_createTask_def]])
qed

lemma createUser_caches:
  assumes h: "redisClient r" "redis_faults r = []"
    and ok: "fst (UserService_createUser J lower_trim hash dto new_id now (r, t)) = Inr created"
  shows "map_of (keyspace (fst (snd (UserService_createUser J lower_trim hash dto new_id now (r, t)))))
            (CachePrefix_USER @ entity_id created)
          = Some (JSON_stringify J (JsObject created), Some CacheTTL_LONG)"
proof -
  let ?find = "UserRepository_findByEmail lower_trim (new_email dto)"
  obtain o1 t1 where f: "?find t = (o1, t1)" by (cases "?find t")
  let ?columns = "\<lparr>entity_id = [], createdAt = 0, updatedAt = 0, deletedAt = None,
                     email = new_email dto,
                     passwordHash = hash (new_password dto),
                     firstName = new_firstName dto,
                     lastName = new_lastName dto,
                     role = (case new_role dto of None \<Rightarrow> USER | Some ro \<Rightarrow> ro),
                     user_status = ACTIVE\<rparr>"
  let ?create = "BaseRepository_create (User_metadata lower_trim) ?columns new_id now"
  obtain o2 t2 where c: "?create t1 = (o2, t2)" by (cases "?create t1")
  from ok f have o1: "o1 = Inr None"
    by (auto simp: UserService_createUser_def await_def on_store_def throw_def
        split: sum.splits option.splits)
  from ok f c o1 obtain u where o2: "o2 = Inr u"
    by (cases o2) (auto simp: UserService_createUser_def await_def on_store_def)
  let ?key = "CachePrefix_USER @ entity_id u"
  let ?r1 = "r\<lparr>keyspace := (?key, JSON_stringify J (JsObject u), Some CacheTTL_LONG)
                               # filter (\<lambda>e. fst e \<noteq> ?key) (keyspace r)\<rparr>"
  have s: "CacheService_set J ?key (JsObject u) CacheTTL_LONG r = (Inr True, ?r1)"
    using set_healthy [OF h, of CacheTTL_LONG J ?key "JsObject u"] by (simp add: CacheTTL_LONG_def)
  have run: "UserService_createUser J lower_trim hash dto new_id now (r, t) = (Inr u, ?r1, t2)"
    using f c o1 o2 s
    by (simp add: UserService_createUser_def await_def on_store_def on_cache_def resolve_def)
  with ok have "created = u" by simp
  with run show ?thesis by simp
qed

lemma only_deleted_without_key:
  assumes "only_deleted a b"
  shows "only_deleted (without_key k a) (without_key k b)"
proof -
  define K where "K = set (map fst (keyspace b))"
  have "keyspace b = filter (\<lambda>e. fst e \<in> K) (keyspace a)"
    using assms by (simp add: only_deleted_def K_def)
  then have "keyspace (without_key k b) = filter (\<lambda>e. fst e \<in> K) (keyspace (without_key k a))"
    by (simp add: without_key_def conj_commute)
  then show ?thesis by (rule only_deletedI [where P = "\<lambda>x. x \<in> K"])
qed

lemma redis_setex_keyspace:
  "keyspace (snd (redis_setex key ttl v r)) = keyspace r
   \<or> keyspace (snd (redis_setex key ttl v r))
       = (key, v, Some ttl) # filter (\<lambda>e. fst e \<noteq> key) (keyspace r)"
  by (simp add: redis_setex_def redis_command_def split: list.splits option.splits)

lemma set_keyspace_without_key:
  "keyspace (without_key key (snd (CacheService_set J key v ttl r))) = keyspace (without_key key r)"
proof (cases "getRedisClient r")
  case (Inl e)
  then show ?thesis by (simp add: CacheService_set_def)
next
  case (Inr u)
  let ?ser = "case v of JsString s \<Rightarrow> s | _ \<Rightarrow> JSON_stringify J v"
  obtain out r1 where st: "redis_setex key ttl ?ser r = (out, r1)"
    by (cases "redis_setex key ttl ?ser r")
  have "snd (CacheService_set J key v ttl r) = r1"
    using Inr st by (cases out) (simp_all add: CacheService_set_def)
  moreover have "filter (\<lambda>e. fst e \<noteq> key) (keyspace r1) = filter (\<lambda>e. fst e \<noteq> key) (keyspace r)"
    using redis_setex_keyspace [of key ttl ?ser r] st by auto
  ultimately show ?thesis by (simp add: without_key_def)
qed

lemma getOrSet_keyspace_without_key:
  "keyspace (without_key key (fst (snd (CacheService_getOrSet J key callback ttl (r, s)))))
     = keyspace (without_key key r)"
proof -
  obtain x r1 where g: "CacheService_get J key r = (Inr x, r1)"
    using get_never_rejects [of J key r] by (cases "CacheService_get J key r") auto
  have k1: "keyspace r1 = keyspace r" using get_keyspace [of J key r] g by simp
  have w1: "keyspace (without_key key r1) = keyspace (without_key key r)"
    by (simp add: without_key_def k1)
  show ?thesis
  proof (cases "x = JsNull")
    case False
    with g w1 show ?thesis by (simp add: CacheService_getOrSet_def)
  next
    case True
    obtain out s1 where c: "callback s = (out, s1)" by (cases "callback s")
    show ?thesis
    proof (cases out)
      case (Inl e)
      with g True c w1 show ?thesis
        by (simp add: CacheService_getOrSet_def getOrSet_catch_def split: prod.splits)
    next
      case (Inr res)
      obtain b r2 where st: "CacheService_set J key res ttl r1 = (Inr b, r2)"
        using set_never_rejects [of J key res ttl r1]
        by (cases "CacheService_set J key res ttl r1") auto
      have "keyspace (without_key key r2) = keyspace (without_key key r1)"
        using set_keyspace_without_key [of key J res ttl r1] st by simp
      with g True c Inr st w1 show ?thesis
        by (simp add: CacheService_getOrSet_def)
    qed
  qed
qed

lemma only_deleted_keyspace_cong:
  "keyspace a' = keyspace a \<Longrightarrow> only_deleted a b \<Longrightarrow> only_deleted a' b"
  by (simp add: only_deleted_def)

lemma updateUser_writes_only_user_key:
  "only_deleted (without_key (CachePrefix_USER @ ident) r)
     (without_key (CachePrefix_USER @ ident)
        (fst (snd (UserService_updateUser J lower_trim ident dto now (r, t)))))"
proof -
  let ?k = "CachePrefix_USER @ ident"
  let ?rest = "\<lambda>found.
       if falsy found then throw (new_Error (''User with id '' @ ident @ '' not found''))
       else
         await (if truthy_string (change_email dto) \<and> change_email dto \<noteq> email_property found
                then await (on_store (UserRepository_isEmailTaken lower_trim
                                        (case change_email dto of Some a \<Rightarrow> a | None \<Rightarrow> [])
                                        (Some ident)))
                       (\<lambda>isTaken. if isTaken then throw (new_Error ''Email already in use'')
                                   else resolve ())
                else resolve ()) (\<lambda>u.
         await (on_store (BaseRepository_update (User_metadata lower_trim) ident dto now)) (\<lambda>updated.
         await (on_cache (invalidateUserCache ident)) (\<lambda>u.
         resolve updated)))"
  have rest: "deletes_only (?rest found)" for found
    by (intro deletes_only_intros deletes_only_if)
  obtain out r1 t1 where f: "UserService_findById J ident (r, t) = (out, r1, t1)"
    by (cases "UserService_findById J ident (r, t)")
  have "keyspace (without_key ?k (fst (snd (UserService_findById J ident (r, t)))))
          = keyspace (without_key ?k r)"
    unfolding UserService_findById_def by (rule getOrSet_keyspace_without_key)
  then have w: "keyspace (without_key ?k r1) = keyspace (without_key ?k r)"
    using f by simp
  have "only_deleted r1 (fst (snd (UserService_updateUser J lower_trim ident dto now (r, t))))"
  proof (cases out)
    case (Inl e)
    with f show ?thesis
      by (simp add: UserService_updateUser_def await_def only_deleted_refl)
  next
    case (Inr found)
    have "only_deleted r1 (fst (snd (?rest found (r1, t1))))"
      using rest [of found] by (simp add: deletes_only_def)
    with f Inr show ?thesis
      by (simp add: UserService_updateUser_def await_def)
  qed
  then have "only_deleted (without_key ?k r1)
     (without_key ?k (fst (snd (UserService_updateUser J lower_trim ident dto now (r, t)))))"
    by (rule only_deleted_without_key)
  then show ?thesis
    by (rule only_deleted_keyspace_cong [OF w [symmetric]])
qed

text \<open>
  Claim C1 is not met by \<open>assignTask\<close>. Task \<open>t1\<close> is owned by \<open>A\<close>, and the cache
  holds the task entry and the list and statistics entries of \<open>A\<close> and of \<open>B\<close>. After
  \<open>assignTask(t1, B)\<close> the task entry and the entries of \<open>B\<close> are gone, but the entries
  of the previous owner \<open>A\<close> are still cached, and the statistics query for \<open>A\<close>
  returns the cached value (one task) while the store now counts none for \<open>A\<close>. The
  sibling \<open>updateTask\<close> with the same reassignment deletes the entries of both owners.
\<close>

theorem assignTask_leaves_previous_owner_cached:
  "map fst (keyspace (fst (snd (TaskService_assignTask ''t1'' ''B'' 10
       (example_cache [],
        \<lparr>table_rows = [example_task ''t1'' TODO None (Some ''A'') None], db_faults = []\<rparr>)))))
     = [''user_tasks:A:{}'', ''task_stats:A'']
   \<and> map assigneeId (table_rows (snd (snd (TaskService_assignTask ''t1'' ''B'' 10
       (example_cache [],
        \<lparr>table_rows = [example_task ''t1'' TODO None (Some ''A'') None], db_faults = []\<rparr>)))))
     = [Some ''B'']
   \<and> fst (TaskService_getUserTaskStats
            \<lparr>JSON_stringify = (\<lambda>v. ''{}''),
             JSON_parse = (\<lambda>s. if s = ''{}''
                                then Some (JsObject \<lparr>stats_total = 1, stats_todo = 1,
                                           stats_inProgress = 0, stats_done = 0, stats_overdue = 0\<rparr>)
                                else None)\<rparr>
            ''A'' 11
            (snd (TaskService_assignTask ''t1'' ''B'' 10
               (example_cache [],
                \<lparr>table_rows = [example_task ''t1'' TODO None (Some ''A'') None],
                 db_faults = []\<rparr>))))
     = Inr (JsObject \<lparr>stats_total = 1, stats_todo = 1, stats_inProgress = 0, stats_done = 0,
                      stats_overdue = 0\<rparr>)
   \<and> fst (TaskRepository_getUserTaskStats ''A'' 11
            (snd (snd (TaskService_assignTask ''t1'' ''B'' 10
               (example_cache [],
                \<lparr>table_rows = [example_task ''t1'' TODO None (Some ''A'') None],
                 db_faults = []\<rparr>)))))
     = Inr \<lparr>stats_total = 0, stats_todo = 0, stats_inProgress = 0, stats_done = 0,
            stats_overdue = 0\<rparr>
   \<and> map fst (keyspace (fst (snd (TaskService_updateTask ''t1''
       (no_changes\<lparr>update_assigneeId := Some ''B''\<rparr>) 10
       (example_cache [],
        \<lparr>table_rows = [example_task ''t1'' TODO None (Some ''A'') None], db_faults = []\<rparr>)))))
     = []"
  by code_simp

text \<open>
  Claim C6, as stated, fails for the create paths: \<open>createTask\<close> stores the new task in
  the cache. Here the cache is empty before the call and holds the key \<open>task:t1\<close> after.
\<close>

theorem createTask_writes_the_cache:
  "map fst (keyspace (fst (snd (TaskService_createTask
      \<lparr>JSON_stringify = (\<lambda>v. ''{}''), JSON_parse = (\<lambda>s. None)\<rparr>
      \<lparr>create_title = ''Report'', create_description = None, create_status = None,
       create_priority = None, create_dueDate = None, create_assigneeId = None,
       create_createdById = ''A''\<rparr>
      ''t1'' 10
      (\<lparr>redisClient = True, keyspace = [], redis_faults = []\<rparr>,
       \<lparr>table_rows = [], db_faults = []\<rparr>)))))
   = [''task:t1'']"
  by code_simp

text \<open>
  Claim C6, amended. The task paths \<open>updateTask\<close>, \<open>updateStatus\<close>, \<open>assignTask\<close>,
  \<open>unassignTask\<close> and \<open>deleteTask\<close> and the user paths \<open>changePassword\<close>,
  \<open>deactivateUser\<close> and \<open>deleteUser\<close> only delete cache entries, from every state and
  whatever fails: what the cache holds afterwards, it held before with the same value.
  \<open>updateUser\<close> first reads the user through the cache, which may store the key
  \<open>user:<id>\<close>; on every other key it only deletes. The create paths write: when the
  backend is healthy and the call succeeds, \<open>createTask\<close> leaves the new task under
  \<open>task:<id>\<close> and \<open>createUser\<close> the new user under \<open>user:<id>\<close>, serialized,
  with the time to live of the entry.
\<close>

theorem mutations_only_delete_creates_write:
  "deletes_only (TaskService_updateTask ident dto now)
   \<and> deletes_only (TaskService_updateStatus ident st now)
   \<and> deletes_only (TaskService_assignTask ident userId now)
   \<and> deletes_only (TaskService_unassignTask ident now)
   \<and> deletes_only (TaskService_deleteTask ident now)
   \<and> deletes_only (UserService_changePassword lower_trim hash compare ident old new now)
   \<and> deletes_only (UserService_deactivateUser lower_trim ident now)
   \<and> deletes_only (UserService_deleteUser ident now)
   \<and> only_deleted (without_key (CachePrefix_USER @ ident) r)
        (without_key (CachePrefix_USER @ ident)
           (fst (snd (UserService_updateUser JU lower_trim ident udto now (r, users)))))
   \<and> (redisClient r \<and> redis_faults r = []
        \<and> fst (TaskService_createTask JT cdto new_id now (r, tasks)) = Inr created \<longrightarrow>
        map_of (keyspace (fst (snd (TaskService_createTask JT cdto new_id now (r, tasks)))))
            (CachePrefix_TASK @ entity_id created)
          = Some (JSON_stringify JT (JsObject created), Some CacheTTL_MEDIUM))
   \<and> (redisClient r \<and> redis_faults r = []
        \<and> fst (UserService_createUser JU lower_trim hash ndto new_id now (r, users)) = Inr registered
        \<longrightarrow>
        map_of (keyspace (fst (snd (UserService_createUser JU lower_trim hash ndto new_id now
                                      (r, users)))))
            (CachePrefix_USER @ entity_id registered)
          = Some (JSON_stringify JU (JsObject registered), Some CacheTTL_LONG))"
proof -
  have task_created: "redisClient r \<and> redis_faults r = []
        \<and> fst (TaskService_createTask JT cdto new_id now (r, tasks)) = Inr created \<longrightarrow>
        map_of (keyspace (fst (snd (TaskService_createTask JT cdto new_id now (r, tasks)))))
            (CachePrefix_TASK @ entity_id created)
          = Some (JSON_stringify JT (JsObject created), Some CacheTTL_MEDIUM)"
    using createTask_caches by blast
  have user_created: "redisClient r \<and> redis_faults r = []
        \<and> fst (UserService_createUser JU lower_trim hash ndto new_id now (r, users)) = Inr registered
        \<longrightarrow>
        map_of (keyspace (fst (snd (UserService_createUser JU lower_trim hash ndto new_id now
                                      (r, users)))))
            (CachePrefix_USER @ entity_id registered)
          = Some (JSON_stringify JU (JsObject registered), Some CacheTTL_LONG)"
    using createUser_caches by blast
  show ?thesis
    by (intro conjI TaskService_updateTask_deletes_only TaskService_updateStatus_deletes_only
        TaskService_assignTask_deletes_only TaskService_unassignTask_deletes_only
        TaskService_deleteTask_deletes_only UserService_changePassword_deletes_only
        UserService_deactivateUser_deletes_only UserService_deleteUser_deletes_only
        updateUser_writes_only_user_key task_created user_created)
qed

theorem mutations_only_delete_creates_write_witness:
  "redisClient (example_cache []) \<and> redis_faults (example_cache []) = []
   \<and> fst (TaskService_createTask opaque_JSON
           \<lparr>create_title = ''Report'', create_description = None, create_status = None,
            create_priority = None, create_dueDate = None, create_assigneeId = Some ''A'',
            create_createdById = ''A''\<rparr>
           ''t9'' 10 (example_cache [], example_tasks))
       = Inr ((example_task ''t9'' TODO None (Some ''A'') None)\<lparr>createdAt := 10, updatedAt := 10\<rparr>)
   \<and> map_of (keyspace (fst (snd (TaskService_createTask opaque_JSON
           \<lparr>create_title = ''Report'', create_description = None, create_status = None,
            create_priority = None, create_dueDate = None, create_assigneeId = Some ''A'',
            create_createdById = ''A''\<rparr>
           ''t9'' 10 (example_cache [], example_tasks))))) ''task:t9''
       = Some (''{}'', Some 300)
   \<and> only_deleted (example_cache [])
         (fst (snd (TaskService_deleteTask ''t1'' 10 (example_cache [], example_tasks))))"
proof -
  let ?dto = "\<lparr>create_title = ''Report'', create_description = None, create_status = None,
            create_priority = None, create_dueDate = None, create_assigneeId = Some ''A'',
            create_createdById = ''A''\<rparr>"
  let ?created = "(example_task ''t9'' TODO None (Some ''A'') None)\<lparr>createdAt := 10, updatedAt := 10\<rparr>"
  note inst = mutations_only_delete_creates_write
      [where r = "example_cache []" and JT = opaque_JSON and cdto = ?dto and new_id = "''t9''"
         and now = 10 and tasks = example_tasks and created = ?created and ident = "''t1''"]
  have healthy: "redisClient (example_cache [])" "redis_faults (example_cache []) = []"
    by (simp_all add: example_cache_def)
  have ok: "fst (TaskService_createTask opaque_JSON ?dto ''t9'' 10 (example_cache [], example_tasks))
              = Inr ?created"
    by code_simp
  have key: "CachePrefix_TASK @ entity_id ?created = ''task:t9''"
    by (simp add: CachePrefix_TASK_def example_task_def)
  have val: "JSON_stringify opaque_JSON (JsObject ?created) = ''{}''" "CacheTTL_MEDIUM = 300"
    by (simp_all add: opaque_JSON_def CacheTTL_MEDIUM_def)
  from inst healthy ok
  have "map_of (keyspace (fst (snd (TaskService_createTask opaque_JSON ?dto ''t9'' 10
                                      (example_cache [], example_tasks)))))
            (CachePrefix_TASK @ entity_id ?created)
          = Some (JSON_stringify opaque_JSON (JsObject ?created), Some CacheTTL_MEDIUM)"
    by blast
  then have stored: "map_of (keyspace (fst (snd (TaskService_createTask opaque_JSON ?dto ''t9'' 10
                                      (example_cache [], example_tasks))))) ''task:t9''
          = Some (''{}'', Some 300)"
    unfolding key val .
  from inst have "deletes_only (TaskService_deleteTask ''t1'' 10)"
    by blast
  then have "only_deleted (example_cache [])
         (fst (snd (TaskService_deleteTask ''t1'' 10 (example_cache [], example_tasks))))"
    by (simp add: deletes_only_def)
  with healthy ok stored show ?thesis by blast
qed


end
